theory Spec2Isabelle
  imports Complex_Main "HOL-Library.Multiset"
begin

section \<open>Data model\<close>

text \<open>
  The verdict categories of \<^verbatim>\<open>ModuleVerificationStatus\<close> (moduleVerifier.ts, lines 11-27),
  in the order of the enum.
\<close>

datatype ModuleVerificationStatus = Compromised | Unsigned | Untrusted | Trusted

text \<open>
  A signing identity. Both fields are optional properties of the object: \<open>None\<close> stands
  for a property that reads as \<^verbatim>\<open>undefined\<close>.
\<close>

record SignatureIdentity =
  keybaseUser :: "string option"
  pgpPublicKeyUrl :: "string option"

text \<open>One element of the list held by a files entry (part_001, lines 113-116).\<close>

record SignatureFileEntry =
  path :: string
  sha512 :: string

text \<open>
  The \<^verbatim>\<open>SignatureEntry\<close> interface has one data field, the type tag \<^verbatim>\<open>entry\<close>;
  the class \<^verbatim>\<open>SignatureFilesEntry\<close> (part_001, lines 12-18) adds the list \<^verbatim>\<open>files\<close>.
\<close>

record SignatureEntry =
  entry :: string

record SignatureFilesEntry = SignatureEntry +
  files :: "SignatureFileEntry list"

definition new_SignatureFilesEntry :: "SignatureFileEntry list \<Rightarrow> SignatureFilesEntry" where
  "new_SignatureFilesEntry raw_files = \<lparr>entry = ''files/v1alpha1'', files = raw_files\<rparr>"

text \<open>
  The context object handed to an entry's content check. moduleVerifier.ts (lines 58-62)
  builds it with three fields; the files entry of part_001 reads four more from it
  (\<^verbatim>\<open>signatureEntries\<close>, \<^verbatim>\<open>untrustedIdentity\<close>, \<^verbatim>\<open>untrustedPackageVersion\<close>,
  \<^verbatim>\<open>isPrivate\<close>). The declaring module is not among the sources, so the fields are
  the ones the code reads; of each element of \<^verbatim>\<open>signatureEntries\<close> only the tag is read.
\<close>

record ModuleContext =
  dir :: string
  relFilesOnDisk :: "string list"
  expectedPackageName :: string

record VerificationContext = ModuleContext +
  signatureEntries :: "SignatureEntry list"
  untrustedIdentity :: "SignatureIdentity option"
  untrustedPackageVersion :: "string option"
  isPrivate :: "bool option"

text \<open>
  The result object. \<open>None\<close> in an optional field stands for a property that is absent
  or \<^verbatim>\<open>undefined\<close>. The results built by moduleVerifier.ts never set the last two fields.
  Three field names are those of the context as well; the context's are written with
  their qualified names.
\<close>

record ModuleVerificationResult =
  status :: ModuleVerificationStatus
  packageName :: string
  reason :: "string option"
  untrustedIdentity :: "SignatureIdentity option"
  untrustedPackageVersion :: "string option"
  isPrivate :: "bool option"

section \<open>The host: exceptions, JSON values, the file system\<close>

text \<open>
  A thrown exception or rejected promise: an IO error carrying the path, the
  \<^verbatim>\<open>TypeError\<close> of the runtime, or whatever a collaborator outside the sources throws.
\<close>

datatype exn = IOError string | TypeError | Rejected string

text \<open>
  The values \<^verbatim>\<open>JSON.parse\<close> returns. A number is the finite value it denotes; an object
  is the association list of its own properties.
\<close>

datatype json =
    JNull
  | JBoolean bool
  | JNumber rat
  | JString string
  | JArray "json list"
  | JObject "(string \<times> json) list"

text \<open>
  What the code takes from the runtime and its standard library, as parameters: the
  platform test and the two environment variables of \<^verbatim>\<open>createTrustStoreIfNecessary\<close>,
  \<^verbatim>\<open>path.join\<close>, the parent directory of a path, \<^verbatim>\<open>JSON.parse\<close> (\<open>None\<close> when it
  throws), \<^verbatim>\<open>JSON.stringify\<close>, the SHA-512 hex digest of file contents, and the loose
  comparison \<^verbatim>\<open>==\<close> of a truthy non-string value with a string.
\<close>

record platform =
  isWin :: bool
  env_USERPROFILE :: "string option"
  env_HOME :: "string option"
  path_join :: "string \<Rightarrow> string \<Rightarrow> string"
  path_dirname :: "string \<Rightarrow> string"
  JSON_parse :: "string \<Rightarrow> json option"
  JSON_stringify :: "json \<Rightarrow> string"
  sha512_hex :: "string \<Rightarrow> string"
  loose_eq :: "json \<Rightarrow> string \<Rightarrow> bool"

text \<open>The file system: the contents of the regular files and the set of directories.\<close>

record fsys =
  regular :: "string \<rightharpoonup> string"
  folders :: "string set"

text \<open>
  Modelled from the spec: \<^verbatim>\<open>readFilePromise\<close> of the module fsPromise, which is not
  among the sources. It reads an entire file and fails only with an IO error carrying
  the path; here it fails exactly when the path is no regular file.
\<close>

definition readFilePromise :: "fsys \<Rightarrow> string \<Rightarrow> exn + string" where
  "readFilePromise fs p = (case regular fs p of None \<Rightarrow> Inl (IOError p) | Some c \<Rightarrow> Inr c)"

text \<open>
  Modelled from the spec: \<^verbatim>\<open>sha512OfFile\<close> of the module fsPromise, which is not among
  the sources. It gives the lowercase hexadecimal SHA-512 of the file and fails only
  with an IO error carrying the path, here exactly when the path is no regular file.
\<close>

definition sha512OfFile :: "platform \<Rightarrow> fsys \<Rightarrow> string \<Rightarrow> exn + string" where
  "sha512OfFile pf fs p =
     (case regular fs p of None \<Rightarrow> Inl (IOError p) | Some c \<Rightarrow> Inr (sha512_hex pf c))"

text \<open>
  Modelled from the spec: \<^verbatim>\<open>writeFilePromise\<close> of the module fsPromise, which is not
  among the sources. It writes the record, replacing any prior one; as the runtime's
  \<^verbatim>\<open>fs.writeFile\<close> it fails on a directory and when the parent directory does not
  exist.
\<close>

definition writeFilePromise :: "platform \<Rightarrow> fsys \<Rightarrow> string \<Rightarrow> string \<Rightarrow> exn + fsys" where
  "writeFilePromise pf fs p c =
     (if p \<in> folders fs \<or> path_dirname pf p \<notin> folders fs then Inl (IOError p)
      else Inr (fs\<lparr>regular := (regular fs)(p \<mapsto> c)\<rparr>))"

text \<open>
  \<^verbatim>\<open>fs.existsSync\<close> and \<^verbatim>\<open>fs.mkdirSync\<close> of the runtime. The latter is not
  recursive: it throws when the path exists and when its parent directory does not.
\<close>

definition existsSync :: "fsys \<Rightarrow> string \<Rightarrow> bool" where
  "existsSync fs p = (p \<in> folders fs \<or> regular fs p \<noteq> None)"

definition mkdirSync :: "platform \<Rightarrow> fsys \<Rightarrow> string \<Rightarrow> exn + fsys" where
  "mkdirSync pf fs p =
     (if existsSync fs p \<or> path_dirname pf p \<notin> folders fs then Inl (IOError p)
      else Inr (fs\<lparr>folders := insert p (folders fs)\<rparr>))"

section \<open>The files entry (part_001)\<close>

text \<open>\<^verbatim>\<open>toDeterministicString\<close>, lines 20-26: the loop appends to the accumulator.\<close>

fun serializeFiles :: "SignatureFileEntry list \<Rightarrow> string \<Rightarrow> string" where
  "serializeFiles [] deterministicString = deterministicString"
| "serializeFiles (e # rest) deterministicString =
     serializeFiles rest (deterministicString @ path e @ [CHR 0x0A] @ sha512 e @ [CHR 0x0A])"

definition toDeterministicString :: "SignatureFilesEntry \<Rightarrow> string" where
  "toDeterministicString this = serializeFiles (files this) []"

text \<open>\<^verbatim>\<open>relFileOnDisk.replace(/\\/g, '/')\<close>: every backslash becomes a forward slash.\<close>

definition normalisePath :: "string \<Rightarrow> string" where
  "normalisePath relFileOnDisk = map (\<lambda>c. if c = CHR 0x5C then CHR ''/'' else c) relFileOnDisk"

text \<open>
  Lines 42-49: the search for the on-disk path in \<^verbatim>\<open>this.files\<close>. The pair is
  (\<^verbatim>\<open>found\<close>, \<^verbatim>\<open>expectedHash\<close>), started at (false, null); the loop has no break.
\<close>

fun findExpected :: "SignatureFileEntry list \<Rightarrow> string \<Rightarrow> bool \<times> string option \<Rightarrow> bool \<times> string option" where
  "findExpected [] normalisedPath acc = acc"
| "findExpected (expectedFile # rest) normalisedPath acc =
     findExpected rest normalisedPath
       (if path expectedFile = normalisedPath then (True, Some (sha512 expectedFile)) else acc)"

text \<open>The failure object of lines 52-59, 64-71 and 92-99, for a given reason.\<close>

definition failure :: "VerificationContext \<Rightarrow> string \<Rightarrow> ModuleVerificationResult" where
  "failure context r =
     \<lparr>status = Compromised,
      packageName = expectedPackageName context,
      reason = Some r,
      untrustedIdentity = VerificationContext.untrustedIdentity context,
      untrustedPackageVersion = VerificationContext.untrustedPackageVersion context,
      isPrivate = VerificationContext.isPrivate context\<rparr>"

text \<open>
  Lines 33-73: the loop over the files on disk; \<open>skip\<close> is the value of
  \<^verbatim>\<open>skipPackageJsonExactVerification\<close>. \<open>Inr None\<close> means the loop ran to its end;
  \<open>Inl\<close> is the rejection of \<^verbatim>\<open>sha512OfFile\<close>, which nothing catches.
\<close>

fun diskLoop ::
  "platform \<Rightarrow> fsys \<Rightarrow> SignatureFilesEntry \<Rightarrow> VerificationContext \<Rightarrow> bool \<Rightarrow> string list
     \<Rightarrow> exn + ModuleVerificationResult option" where
  "diskLoop pf fs this context skip [] = Inr None"
| "diskLoop pf fs this context skip (relFileOnDisk # rest) =
     (let normalisedPath = normalisePath relFileOnDisk in
      if normalisedPath = ''signature.json'' then
        diskLoop pf fs this context skip rest
      else if normalisedPath = ''package.json'' \<and> skip then
        diskLoop pf fs this context skip rest
      else
        (case findExpected (files this) normalisedPath (False, None) of
           (found, expectedHash) \<Rightarrow>
             if \<not> found then
               Inr (Some (failure context
                 (normalisedPath @ '' exists in the package, but was not in the signature'')))
             else
               (case sha512OfFile pf fs (path_join pf (dir context) normalisedPath) of
                  Inl e \<Rightarrow> Inl e
                | Inr hash \<Rightarrow>
                    if Some hash \<noteq> expectedHash then
                      Inr (Some (failure context
                        (normalisedPath @ '' does not have content that was signed for (mismatched hash)'')))
                    else diskLoop pf fs this context skip rest)))"

text \<open>Lines 83-89: is the listed path among the normalised on-disk paths?\<close>

fun findOnDisk :: "string list \<Rightarrow> string \<Rightarrow> bool \<Rightarrow> bool" where
  "findOnDisk [] p found = found"
| "findOnDisk (relFileOnDisk # rest) p found =
     findOnDisk rest p (if normalisePath relFileOnDisk = p then True else found)"

text \<open>Lines 78-101: the loop over the listed files.\<close>

fun listedLoop :: "VerificationContext \<Rightarrow> SignatureFileEntry list \<Rightarrow> ModuleVerificationResult option" where
  "listedLoop context [] = None"
| "listedLoop context (fileEntry # rest) =
     (if path fileEntry = ''signature.json'' then listedLoop context rest
      else if \<not> findOnDisk (relFilesOnDisk context) (path fileEntry) False then
        Some (failure context
          (path fileEntry @ '' is expected by the signature, but is missing in the package''))
      else listedLoop context rest)"

text \<open>Line 29: is some entry of the document a package-manifest entry?\<close>

definition skipPackageJsonExactVerification :: "VerificationContext \<Rightarrow> bool" where
  "skipPackageJsonExactVerification context =
     list_ex (\<lambda>x. entry x = ''packageJson/v1alpha1'') (signatureEntries context)"

text \<open>\<^verbatim>\<open>SignatureFilesEntry.verify\<close>, lines 28-105.\<close>

definition files_verify ::
  "platform \<Rightarrow> fsys \<Rightarrow> SignatureFilesEntry \<Rightarrow> VerificationContext
     \<Rightarrow> exn + ModuleVerificationResult option" where
  "files_verify pf fs this context =
     (case diskLoop pf fs this context (skipPackageJsonExactVerification context)
             (relFilesOnDisk context) of
        Inl e \<Rightarrow> Inl e
      | Inr (Some r) \<Rightarrow> Inr (Some r)
      | Inr None \<Rightarrow> Inr (listedLoop context (files this)))"

text \<open>\<^verbatim>\<open>getIdentity\<close>, lines 107-110.\<close>

definition files_getIdentity :: "SignatureFilesEntry \<Rightarrow> SignatureIdentity option" where
  "files_getIdentity this = None"

section \<open>The trust store (part_000)\<close>

text \<open>
  \<^verbatim>\<open>createTrustStoreIfNecessary\<close>, lines 28-38. \<^verbatim>\<open>path.join\<close> throws a
  \<^verbatim>\<open>TypeError\<close> on an argument that is not a string, which is what an unset
  environment variable gives. The result is the folder, or the exception, and the file
  system after the call.
\<close>

definition createTrustStoreIfNecessary :: "platform \<Rightarrow> fsys \<Rightarrow> (exn + string) \<times> fsys" where
  "createTrustStoreIfNecessary pf fs =
     (let trustStoreBaseFolder = (if isWin pf then env_USERPROFILE pf else env_HOME pf) in
      case trustStoreBaseFolder of
        None \<Rightarrow> (Inl TypeError, fs)
      | Some base \<Rightarrow>
          (let trustStoreFolder = path_join pf base ''.pkgsign-trust-store'' in
           if \<not> existsSync fs trustStoreFolder then
             (case mkdirSync pf fs trustStoreFolder of
                Inl e \<Rightarrow> (Inl e, fs)
              | Inr fs' \<Rightarrow> (Inr trustStoreFolder, fs'))
           else (Inr trustStoreFolder, fs)))"

text \<open>
  Reading a property of a parsed JSON value that is not \<^verbatim>\<open>null\<close>: an object gives
  the value of its own property, \<open>None\<close> (\<^verbatim>\<open>undefined\<close>) when it has none; a boolean, a
  number, a string or an array has none of the properties the code reads
  (\<^verbatim>\<open>keybaseUser\<close>, \<^verbatim>\<open>pgpPublicKeyUrl\<close>, \<^verbatim>\<open>name\<close>). On \<^verbatim>\<open>null\<close> the runtime throws,
  so every caller tests for it first.
\<close>

fun property :: "json \<Rightarrow> string \<Rightarrow> json option" where
  "property (JObject kvs) k = map_of kvs k"
| "property v k = None"

text \<open>
  \<^verbatim>\<open>===\<close> between a property read from parsed JSON and a field of an identity (a
  string or \<^verbatim>\<open>undefined\<close>).
\<close>

fun strict_eq :: "json option \<Rightarrow> string option \<Rightarrow> bool" where
  "strict_eq None None = True"
| "strict_eq (Some (JString s)) (Some t) = (s = t)"
| "strict_eq v w = False"

text \<open>
  \<^verbatim>\<open>isTrusted\<close>, lines 9-19. The folder is resolved before the \<^verbatim>\<open>try\<close>; inside it,
  a failed read, a failed parse and the property read on \<^verbatim>\<open>null\<close> all end in the
  \<^verbatim>\<open>catch\<close>.
\<close>

definition isTrusted :: "platform \<Rightarrow> fsys \<Rightarrow> SignatureIdentity \<Rightarrow> string \<Rightarrow> (exn + bool) \<times> fsys" where
  "isTrusted pf fs identity pkg =
     (case createTrustStoreIfNecessary pf fs of
        (Inl e, fs') \<Rightarrow> (Inl e, fs')
      | (Inr trustStoreFolder, fs') \<Rightarrow>
          (let packageFilename = path_join pf trustStoreFolder (pkg @ ''.trust'') in
           case readFilePromise fs' packageFilename of
             Inl e \<Rightarrow> (Inr False, fs')
           | Inr raw \<Rightarrow>
               (case JSON_parse pf raw of
                  None \<Rightarrow> (Inr False, fs')
                | Some trustInfo \<Rightarrow>
                    if trustInfo = JNull then (Inr False, fs')
                    else
                      (Inr (strict_eq (property trustInfo ''keybaseUser'') (keybaseUser identity)
                            \<and> strict_eq (property trustInfo ''pgpPublicKeyUrl'') (pgpPublicKeyUrl identity)),
                       fs'))))"

text \<open>
  The identity object as \<^verbatim>\<open>JSON.stringify\<close> sees it: a property that is
  \<^verbatim>\<open>undefined\<close> is left out.
\<close>

definition identity_json :: "SignatureIdentity \<Rightarrow> json" where
  "identity_json identity =
     JObject
       ((case keybaseUser identity of None \<Rightarrow> [] | Some u \<Rightarrow> [(''keybaseUser'', JString u)]) @
        (case pgpPublicKeyUrl identity of None \<Rightarrow> [] | Some u \<Rightarrow> [(''pgpPublicKeyUrl'', JString u)]))"

text \<open>\<^verbatim>\<open>addTrusted\<close>, lines 21-26.\<close>

definition addTrusted :: "platform \<Rightarrow> fsys \<Rightarrow> SignatureIdentity \<Rightarrow> string \<Rightarrow> (exn + unit) \<times> fsys" where
  "addTrusted pf fs identity pkg =
     (case createTrustStoreIfNecessary pf fs of
        (Inl e, fs') \<Rightarrow> (Inl e, fs')
      | (Inr trustStoreFolder, fs') \<Rightarrow>
          (let packageFilename = path_join pf trustStoreFolder (pkg @ ''.trust'') in
           case writeFilePromise pf fs' packageFilename (JSON_stringify pf (identity_json identity)) of
             Inl e \<Rightarrow> (Inl e, fs')
           | Inr fs'' \<Rightarrow> (Inr (), fs'')))"

section \<open>The module verifier (moduleVerifier.ts)\<close>

text \<open>
  The signature document, over any type of entries, and the two verifier classes.
\<close>

record 'e SignatureInfo =
  entries :: "'e list"
  signature :: string

datatype Verifier = KeybaseVerifier | PgpVerifier

text \<open>
  The modules \<^verbatim>\<open>ModuleVerifier.verify\<close> calls that are not among the sources, as
  parameters: the signature parser, the canonical message of a document, the two
  methods of the entry interface it uses, and the \<^verbatim>\<open>verify\<close> of the two verifiers.
  Each call that can throw or reject returns a sum.
\<close>

record 'e collaborators =
  signatureParser_parse :: "string \<Rightarrow> exn + 'e SignatureInfo"
  createDeterministicString :: "'e SignatureInfo \<Rightarrow> string"
  entry_verify :: "'e \<Rightarrow> ModuleContext \<Rightarrow> fsys \<Rightarrow> exn + ModuleVerificationResult option"
  entry_getIdentity :: "'e \<Rightarrow> SignatureIdentity option"
  verifier_verify :: "Verifier \<Rightarrow> SignatureIdentity \<Rightarrow> string \<Rightarrow> string \<Rightarrow> exn + bool"

text \<open>A result object of moduleVerifier.ts: status, reason, identity and the package name.\<close>

definition verdict ::
  "ModuleVerificationStatus \<Rightarrow> string option \<Rightarrow> SignatureIdentity option \<Rightarrow> string
     \<Rightarrow> ModuleVerificationResult" where
  "verdict st r ident expected =
     \<lparr>status = st, packageName = expected, reason = r, untrustedIdentity = ident,
      untrustedPackageVersion = None, isPrivate = None\<rparr>"

text \<open>Lines 41-52: the \<^verbatim>\<open>try\<close> block that reads and parses signature.json.\<close>

definition loadSignature :: "platform \<Rightarrow> 'e collaborators \<Rightarrow> fsys \<Rightarrow> string \<Rightarrow> exn + 'e SignatureInfo" where
  "loadSignature pf co fs d =
     (case readFilePromise fs (path_join pf d ''signature.json'') of
        Inl e \<Rightarrow> Inl e
      | Inr rawJson \<Rightarrow> signatureParser_parse co rawJson)"

text \<open>Lines 63-68: the content checks, in document order, up to the first result.\<close>

fun verifyEntries ::
  "'e collaborators \<Rightarrow> fsys \<Rightarrow> ModuleContext \<Rightarrow> 'e list \<Rightarrow> exn + ModuleVerificationResult option" where
  "verifyEntries co fs context [] = Inr None"
| "verifyEntries co fs context (e # rest) =
     (case entry_verify co e context fs of
        Inl x \<Rightarrow> Inl x
      | Inr (Some entryResult) \<Rightarrow> Inr (Some entryResult)
      | Inr None \<Rightarrow> verifyEntries co fs context rest)"

text \<open>Lines 71-78: the first entry that provides an identity.\<close>

fun findIdentity :: "'e collaborators \<Rightarrow> 'e list \<Rightarrow> SignatureIdentity option" where
  "findIdentity co [] = None"
| "findIdentity co (e # rest) =
     (case entry_getIdentity co e of
        Some localIdentity \<Rightarrow> Some localIdentity
      | None \<Rightarrow> findIdentity co rest)"

text \<open>Lines 90-101: the verifier for an identity, \<open>None\<close> for the unknown identity.\<close>

definition selectVerifier :: "SignatureIdentity \<Rightarrow> Verifier option" where
  "selectVerifier identity =
     (if keybaseUser identity \<noteq> None then Some KeybaseVerifier
      else if pgpPublicKeyUrl identity \<noteq> None then Some PgpVerifier
      else None)"

text \<open>Lines 114-123: package.json read and parsed; \<open>None\<close> is the \<^verbatim>\<open>catch\<close>.\<close>

definition loadPackageInfo :: "platform \<Rightarrow> fsys \<Rightarrow> string \<Rightarrow> json option" where
  "loadPackageInfo pf fs d =
     (case readFilePromise fs (path_join pf d ''package.json'') of
        Inl e \<Rightarrow> None
      | Inr raw \<Rightarrow> JSON_parse pf raw)"

text \<open>
  The values that \<^verbatim>\<open>||\<close> replaces by its right operand: \<^verbatim>\<open>undefined\<close>, \<^verbatim>\<open>null\<close>,
  \<^verbatim>\<open>false\<close>, zero and the empty string.
\<close>

fun falsy :: "json option \<Rightarrow> bool" where
  "falsy None = True"
| "falsy (Some JNull) = True"
| "falsy (Some (JBoolean b)) = (\<not> b)"
| "falsy (Some (JNumber n)) = (n = 0)"
| "falsy (Some (JString s)) = (s = [])"
| "falsy (Some v) = False"

text \<open>
  Line 125, the condition
  \<^verbatim>\<open>packageInfo == null || (packageInfo.name || '') != expectedPackageName\<close>.
\<close>

definition nameMismatch :: "platform \<Rightarrow> json \<Rightarrow> string \<Rightarrow> bool" where
  "nameMismatch pf packageInfo expected =
     (packageInfo = JNull \<or>
      (let name = property packageInfo ''name'' in
       if falsy name then [] \<noteq> expected
       else (case name of
               Some (JString s) \<Rightarrow> s \<noteq> expected
             | Some v \<Rightarrow> \<not> loose_eq pf v expected
             | None \<Rightarrow> [] \<noteq> expected)))"

text \<open>
  \<^verbatim>\<open>ModuleVerifier.verify\<close>, lines 39-147, with the trust store of part_000. The result
  is the verdict, or the exception of a call that nothing catches, and the file system
  after the call.
\<close>

definition verify ::
  "platform \<Rightarrow> 'e collaborators \<Rightarrow> fsys \<Rightarrow> string \<Rightarrow> string list \<Rightarrow> string
     \<Rightarrow> (exn + ModuleVerificationResult) \<times> fsys" where
  "verify pf co fs d rel expected =
     (case loadSignature pf co fs d of
        Inl e \<Rightarrow>
          (Inr (verdict Unsigned (Some ''Missing or unparsable signature.json'') None expected), fs)
      | Inr sig \<Rightarrow>
          (let deterministicString = createDeterministicString co sig;
               context = \<lparr>dir = d, relFilesOnDisk = rel, expectedPackageName = expected\<rparr> in
           case verifyEntries co fs context (entries sig) of
             Inl e \<Rightarrow> (Inl e, fs)
           | Inr (Some entryResult) \<Rightarrow> (Inr entryResult, fs)
           | Inr None \<Rightarrow>
               (case findIdentity co (entries sig) of
                  None \<Rightarrow>
                    (Inr (verdict Compromised (Some ''No identity information in signature.json'')
                            None expected), fs)
                | Some identity \<Rightarrow>
                    (case selectVerifier identity of
                       None \<Rightarrow>
                         (Inr (verdict Compromised (Some ''Unknown identity in signature.json'')
                                 None expected), fs)
                     | Some verifier \<Rightarrow>
                         (case verifier_verify co verifier identity (signature sig) deterministicString of
                            Inl e \<Rightarrow> (Inl e, fs)
                          | Inr False \<Rightarrow>
                              (Inr (verdict Compromised (Some ''The signature does not match'')
                                      None expected), fs)
                          | Inr True \<Rightarrow>
                              (case loadPackageInfo pf fs d of
                                 None \<Rightarrow>
                                   (Inr (verdict Compromised
                                           (Some ''Missing or unparsable package.json'') None expected), fs)
                               | Some packageInfo \<Rightarrow>
                                   if nameMismatch pf packageInfo expected then
                                     (Inr (verdict Compromised
                                        (Some ''Provided package name in package.json did not match expected package name'')
                                        None expected), fs)
                                   else
                                     (case isTrusted pf fs identity expected of
                                        (Inl e, fs') \<Rightarrow> (Inl e, fs')
                                      | (Inr True, fs') \<Rightarrow>
                                          (Inr (verdict Trusted None None expected), fs')
                                      | (Inr False, fs') \<Rightarrow>
                                          (Inr (verdict Untrusted None (Some identity) expected), fs'))))))))"

section \<open>The specification's notions\<close>

text \<open>
  The canonical serialization of a files entry in the words of the specification: for
  each pair in the stored order, the path, a line feed, the hash, a line feed.
\<close>

definition spec_serialization :: "SignatureFileEntry list \<Rightarrow> string" where
  "spec_serialization fl = concat (map (\<lambda>e. path e @ [CHR 0x0A] @ sha512 e @ [CHR 0x0A]) fl)"

text \<open>No path and no hash of the list contains a line feed.\<close>

definition lineFree :: "SignatureFileEntry list \<Rightarrow> bool" where
  "lineFree fl = (\<forall>e\<in>set fl. CHR 0x0A \<notin> set (path e) \<and> CHR 0x0A \<notin> set (sha512 e))"

text \<open>
  The hash the entry lists for a path, \<open>S[p]\<close> in the specification: the hash of the last
  pair of the list with that path, \<open>None\<close> when the path is not listed.
\<close>

definition spec_listedHash :: "SignatureFileEntry list \<Rightarrow> string \<Rightarrow> string option" where
  "spec_listedHash fl p = map_of (rev (map (\<lambda>e. (path e, sha512 e)) fl)) p"

text \<open>
  The normalisation of an on-disk path in the words of the specification: every
  backslash is replaced by a forward slash.
\<close>

fun spec_forwardSlashes :: "string \<Rightarrow> string" where
  "spec_forwardSlashes [] = []"
| "spec_forwardSlashes (c # cs) =
     (if c = CHR 0x5C then CHR ''/'' else c) # spec_forwardSlashes cs"

text \<open>The skip set of the specification.\<close>

definition spec_skipSet :: "VerificationContext \<Rightarrow> string set" where
  "spec_skipSet context =
     {''signature.json''} \<union>
     (if \<exists>x\<in>set (signatureEntries context). entry x = ''packageJson/v1alpha1''
      then {''package.json''} else {})"

text \<open>
  A normalised on-disk path passes the first loop: it is in the skip set, or it is listed
  and the digest of the file is the listed hash.
\<close>

definition spec_passes ::
  "platform \<Rightarrow> fsys \<Rightarrow> SignatureFilesEntry \<Rightarrow> VerificationContext \<Rightarrow> string \<Rightarrow> bool" where
  "spec_passes pf fs this context p =
     (p \<in> spec_skipSet context \<or>
      (case spec_listedHash (files this) p of
         None \<Rightarrow> False
       | Some h \<Rightarrow> sha512OfFile pf fs (path_join pf (dir context) p) = Inr h))"

section \<open>An example host and package\<close>

text \<open>
  A POSIX host for the examples. Joining puts a slash between two segments and the parent
  of a path is what precedes its last slash, as \<^verbatim>\<open>path.join\<close> and \<^verbatim>\<open>path.dirname\<close> do
  on the normalised paths of the examples. Parsing and printing know the JSON documents
  of the examples only, and the digest is a stand-in for SHA-512.
\<close>

definition example_join :: "string \<Rightarrow> string \<Rightarrow> string" where
  "example_join a b = a @ ''/'' @ b"

definition example_dirname :: "string \<Rightarrow> string" where
  "example_dirname p = rev (drop 1 (dropWhile (\<lambda>c. c \<noteq> CHR ''/'') (rev p)))"

definition example_documents :: "(string \<times> json) list" where
  \<open>example_documents =
     [(''null'', JNull),
      (''{}'', JObject []),
      (''{"name":"p"}'', JObject [(''name'', JString ''p'')]),
      (''{"name":""}'', JObject [(''name'', JString [])]),
      (''{"keybaseUser":"alice"}'', JObject [(''keybaseUser'', JString ''alice'')]),
      (''{"keybaseUser":"bob"}'', JObject [(''keybaseUser'', JString ''bob'')])]\<close>

definition example_parse :: "string \<Rightarrow> json option" where
  "example_parse s = map_of example_documents s"

definition example_stringify :: "json \<Rightarrow> string" where
  "example_stringify v =
     (case map_of (map (\<lambda>(s, w). (w, s)) example_documents) v of Some s \<Rightarrow> s | None \<Rightarrow> ''null'')"

definition example_digest :: "string \<Rightarrow> string" where
  "example_digest c = ''sha512:'' @ c"

definition example_host :: platform where
  "example_host =
     \<lparr>isWin = False, env_USERPROFILE = None, env_HOME = Some ''/home/u'',
      path_join = example_join, path_dirname = example_dirname,
      JSON_parse = example_parse, JSON_stringify = example_stringify,
      sha512_hex = example_digest, loose_eq = (\<lambda>v s. False)\<rparr>"

text \<open>
  The package of the first end-to-end scenario of the specification: \<^verbatim>\<open>/p\<close> holds
  \<^verbatim>\<open>a.txt\<close>, \<^verbatim>\<open>package.json\<close> and \<^verbatim>\<open>signature.json\<close>; the files entry lists the first
  two; the home directory exists and holds no trust store yet.
\<close>

definition example_fs :: fsys where
  \<open>example_fs =
     \<lparr>regular = [''/p/a.txt'' \<mapsto> ''hi'', ''/p/package.json'' \<mapsto> ''{"name":"p"}'',
                 ''/p/signature.json'' \<mapsto> ''signed by alice''],
      folders = {''/p'', ''/home/u''}\<rparr>\<close>

definition example_entry :: SignatureFilesEntry where
  \<open>example_entry =
     new_SignatureFilesEntry
       [\<lparr>path = ''a.txt'', sha512 = ''sha512:hi''\<rparr>,
        \<lparr>path = ''package.json'', sha512 = ''sha512:{"name":"p"}''\<rparr>]\<close>

definition example_context :: VerificationContext where
  "example_context =
     \<lparr>dir = ''/p'', relFilesOnDisk = [''a.txt'', ''package.json'', ''signature.json''],
      expectedPackageName = ''p'',
      signatureEntries = [\<lparr>entry = ''files/v1alpha1''\<rparr>, \<lparr>entry = ''identity/v1alpha1''\<rparr>],
      VerificationContext.untrustedIdentity = None,
      VerificationContext.untrustedPackageVersion = None,
      VerificationContext.isPrivate = None\<rparr>"

text \<open>
  The same package walked on a Windows host, with one more file in a subdirectory: the
  walk reports it as \<^verbatim>\<open>lib\x.js\<close>, the files entry lists it as \<^verbatim>\<open>lib/x.js\<close>.
\<close>

definition example_lib_fs :: fsys where
  \<open>example_lib_fs =
     \<lparr>regular = [''/p/a.txt'' \<mapsto> ''hi'', ''/p/lib/x.js'' \<mapsto> ''x'',
                 ''/p/package.json'' \<mapsto> ''{"name":"p"}'',
                 ''/p/signature.json'' \<mapsto> ''signed by alice''],
      folders = {''/p'', ''/p/lib'', ''/home/u''}\<rparr>\<close>

definition example_lib_entry :: SignatureFilesEntry where
  \<open>example_lib_entry =
     new_SignatureFilesEntry
       [\<lparr>path = ''a.txt'', sha512 = ''sha512:hi''\<rparr>,
        \<lparr>path = ''lib/x.js'', sha512 = ''sha512:x''\<rparr>,
        \<lparr>path = ''package.json'', sha512 = ''sha512:{"name":"p"}''\<rparr>]\<close>

definition example_lib_context :: VerificationContext where
  "example_lib_context =
     \<lparr>dir = ''/p'',
      relFilesOnDisk = [''a.txt'', [CHR ''l'', CHR ''i'', CHR ''b'', CHR 0x5C, CHR ''x'', CHR ''.'', CHR ''j'', CHR ''s''],
                        ''package.json'', ''signature.json''],
      expectedPackageName = ''p'',
      signatureEntries = [\<lparr>entry = ''files/v1alpha1''\<rparr>, \<lparr>entry = ''identity/v1alpha1''\<rparr>],
      VerificationContext.untrustedIdentity = None,
      VerificationContext.untrustedPackageVersion = None,
      VerificationContext.isPrivate = None\<rparr>"

text \<open>Two identities, and the file system of a host whose home directory does not exist.\<close>

definition example_alice :: SignatureIdentity where
  "example_alice = \<lparr>keybaseUser = Some ''alice'', pgpPublicKeyUrl = None\<rparr>"

definition example_bob :: SignatureIdentity where
  "example_bob = \<lparr>keybaseUser = Some ''bob'', pgpPublicKeyUrl = None\<rparr>"

definition example_bare_fs :: fsys where
  "example_bare_fs = \<lparr>regular = Map.empty, folders = {}\<rparr>"

text \<open>
  Collaborators for the examples. An entry is the identity it provides, if any, and every
  content check passes; the parser knows two documents, each with an entry without
  identity and an identity entry for alice; the verifiers accept the signature
  \<open>good\<close> only.
\<close>

definition example_collaborators :: "SignatureIdentity option collaborators" where
  "example_collaborators =
     \<lparr>signatureParser_parse =
        (\<lambda>raw. if raw = ''signed by alice''
                then Inr \<lparr>entries = [None, Some example_alice], signature = ''good''\<rparr>
              else if raw = ''forged for alice''
                then Inr \<lparr>entries = [None, Some example_alice], signature = ''bad''\<rparr>
              else Inl (Rejected ''SyntaxError'')),
      createDeterministicString = (\<lambda>sig. ''message''),
      entry_verify = (\<lambda>e context fs. Inr None),
      entry_getIdentity = (\<lambda>e. e),
      verifier_verify = (\<lambda>v identity s m. Inr (s = ''good''))\<rparr>"

section \<open>Lemmas about the files entry\<close>

lemma serializeFiles_acc: "serializeFiles xs acc = acc @ spec_serialization xs"
  by (induction xs arbitrary: acc) (simp_all add: spec_serialization_def)

lemma split_at_mark:
  "m \<notin> set a \<Longrightarrow> m \<notin> set b \<Longrightarrow> a @ m # r = b @ m # s \<Longrightarrow> a = b \<and> r = s"
proof (induction a arbitrary: b)
  case Nil
  then show ?case by (cases b) auto
next
  case (Cons x a)
  then show ?case by (cases b) auto
qed

lemma spec_serialization_inj:
  "lineFree xs \<Longrightarrow> lineFree ys \<Longrightarrow> spec_serialization xs = spec_serialization ys \<Longrightarrow> xs = ys"
proof (induction xs arbitrary: ys)
  case Nil
  then show ?case by (cases ys) (simp_all add: spec_serialization_def)
next
  case (Cons x xs)
  show ?case
  proof (cases ys)
    case Nil
    with Cons.prems show ?thesis by (simp add: spec_serialization_def)
  next
    case (Cons y ys')
    from Cons.prems(1) have fx: "CHR 0x0A \<notin> set (path x)" "CHR 0x0A \<notin> set (sha512 x)" "lineFree xs"
      by (simp_all add: lineFree_def)
    from Cons.prems(2) Cons have fy: "CHR 0x0A \<notin> set (path y)" "CHR 0x0A \<notin> set (sha512 y)" "lineFree ys'"
      by (simp_all add: lineFree_def)
    from Cons.prems(3) Cons
    have eq: "path x @ CHR 0x0A # (sha512 x @ CHR 0x0A # spec_serialization xs)
            = path y @ CHR 0x0A # (sha512 y @ CHR 0x0A # spec_serialization ys')"
      by (simp add: spec_serialization_def)
    from split_at_mark [OF fx(1) fy(1) eq]
    have p: "path x = path y"
      and eq2: "sha512 x @ CHR 0x0A # spec_serialization xs = sha512 y @ CHR 0x0A # spec_serialization ys'"
      by simp_all
    from split_at_mark [OF fx(2) fy(2) eq2]
    have h: "sha512 x = sha512 y" and eq3: "spec_serialization xs = spec_serialization ys'"
      by simp_all
    from Cons.IH [OF fx(3) fy(3) eq3] have "xs = ys'" .
    moreover from p h have "x = y" by simp
    ultimately show ?thesis using Cons by simp
  qed
qed

lemma spec_listedHash_Cons:
  "spec_listedHash (e # rest) p =
     (case spec_listedHash rest p of
        Some h \<Rightarrow> Some h
      | None \<Rightarrow> if path e = p then Some (sha512 e) else None)"
  by (simp add: spec_listedHash_def map_add_def split: option.splits)

lemma findExpected_eq:
  "findExpected fl p acc = (case spec_listedHash fl p of None \<Rightarrow> acc | Some h \<Rightarrow> (True, Some h))"
proof (induction fl arbitrary: acc)
  case Nil
  show ?case by (simp add: spec_listedHash_def)
next
  case (Cons e rest)
  show ?case by (simp add: Cons.IH spec_listedHash_Cons split: option.splits)
qed

lemma spec_listedHash_None: "spec_listedHash fl p = None \<longleftrightarrow> p \<notin> path ` set fl"
  by (induction fl) (auto simp: spec_listedHash_Cons spec_listedHash_def split: option.splits)

lemma skip_tests:
  "(p = ''signature.json'' \<or> p = ''package.json'' \<and> skipPackageJsonExactVerification context) \<longleftrightarrow> p \<in> spec_skipSet context"
  by (auto simp: spec_skipSet_def skipPackageJsonExactVerification_def list_ex_iff)

lemma diskLoop_step:
  "diskLoop pf fs this context (skipPackageJsonExactVerification context) (r # rest) =
     (if normalisePath r \<in> spec_skipSet context then
        diskLoop pf fs this context (skipPackageJsonExactVerification context) rest
      else case spec_listedHash (files this) (normalisePath r) of
        None \<Rightarrow> Inr (Some (failure context
                   (normalisePath r @ '' exists in the package, but was not in the signature'')))
      | Some h' \<Rightarrow>
          (case sha512OfFile pf fs (path_join pf (dir context) (normalisePath r)) of
             Inl e \<Rightarrow> Inl e
           | Inr h \<Rightarrow>
               if h \<noteq> h' then
                 Inr (Some (failure context
                   (normalisePath r @ '' does not have content that was signed for (mismatched hash)'')))
               else diskLoop pf fs this context (skipPackageJsonExactVerification context) rest))"
  using skip_tests [of "normalisePath r" "context"]
  by (auto simp add: findExpected_eq Let_def split: option.splits sum.splits)

lemma diskLoop_prefix:
  "\<forall>q\<in>set pre. spec_passes pf fs this context (normalisePath q) \<Longrightarrow>
   diskLoop pf fs this context (skipPackageJsonExactVerification context) (pre @ rest) =
   diskLoop pf fs this context (skipPackageJsonExactVerification context) rest"
proof (induction pre)
  case Nil
  show ?case by simp
next
  case (Cons q pre)
  then show ?case
    by (auto simp add: diskLoop_step spec_passes_def simp del: diskLoop.simps split: option.splits sum.splits)
qed

lemma diskLoop_all:
  "\<forall>q\<in>set rs. spec_passes pf fs this context (normalisePath q) \<Longrightarrow>
   diskLoop pf fs this context (skipPackageJsonExactVerification context) rs = Inr None"
  using diskLoop_prefix [of rs pf fs this "context" "[]"] by simp

lemma diskLoop_Compromised:
  "diskLoop pf fs this context skip rs = Inr (Some r) \<Longrightarrow> status r = Compromised"
  by (induction rs) (auto simp: Let_def failure_def split: if_splits prod.splits sum.splits)

lemma findOnDisk_eq: "findOnDisk rs p acc = (acc \<or> p \<in> normalisePath ` set rs)"
  by (induction rs arbitrary: acc) auto

lemma listedLoop_prefix:
  "\<forall>x\<in>set pre. path x = ''signature.json'' \<or> path x \<in> normalisePath ` set (relFilesOnDisk context) \<Longrightarrow>
   listedLoop context (pre @ rest) = listedLoop context rest"
  by (induction pre) (auto simp: findOnDisk_eq)

lemma listedLoop_all:
  "\<forall>x\<in>set fl. path x = ''signature.json'' \<or> path x \<in> normalisePath ` set (relFilesOnDisk context) \<Longrightarrow>
   listedLoop context fl = None"
  using listedLoop_prefix [of fl "context" "[]"] by simp

lemma listedLoop_Compromised:
  "listedLoop context fl = Some r \<Longrightarrow> status r = Compromised"
  by (induction fl) (auto simp: failure_def split: if_splits)

lemma files_verify_Compromised:
  "files_verify pf fs this context = Inr (Some r) \<Longrightarrow> status r = Compromised"
  by (auto simp: files_verify_def split: sum.splits option.splits
        dest: diskLoop_Compromised listedLoop_Compromised)

lemma normalisePath_backslash:
  "normalisePath [CHR ''l'', CHR ''i'', CHR ''b'', CHR 0x5C, CHR ''x'', CHR 0x5C, CHR ''y''] = ''lib/x/y''"
  by (simp add: normalisePath_def)

lemma failure_inj: "failure context a = failure context b \<longleftrightarrow> a = b"
  by (auto simp: failure_def)

lemma reason_exists_neq_missing:
  "a @ '' exists in the package, but was not in the signature''
     \<noteq> b @ '' is expected by the signature, but is missing in the package''"
proof
  assume "a @ '' exists in the package, but was not in the signature''
     = b @ '' is expected by the signature, but is missing in the package''"
  then have "take 2 (rev (a @ '' exists in the package, but was not in the signature''))
     = take 2 (rev (b @ '' is expected by the signature, but is missing in the package''))"
    by (rule arg_cong)
  then show False by simp
qed

lemma reason_mismatch_neq_missing:
  "a @ '' does not have content that was signed for (mismatched hash)''
     \<noteq> b @ '' is expected by the signature, but is missing in the package''"
proof
  assume "a @ '' does not have content that was signed for (mismatched hash)''
     = b @ '' is expected by the signature, but is missing in the package''"
  then have "take 1 (rev (a @ '' does not have content that was signed for (mismatched hash)''))
     = take 1 (rev (b @ '' is expected by the signature, but is missing in the package''))"
    by (rule arg_cong)
  then show False by simp
qed

lemma diskLoop_first_failure:
  assumes "\<exists>r\<in>set rs. \<not> spec_passes pf fs this context (normalisePath r)"
  shows "diskLoop pf fs this context (skipPackageJsonExactVerification context) rs \<noteq> Inr None
       \<and> diskLoop pf fs this context (skipPackageJsonExactVerification context) rs
           \<noteq> Inr (Some (failure context (p @ '' is expected by the signature, but is missing in the package'')))"
proof -
  from assms obtain pre r post where
    rs: "rs = pre @ r # post" and
    pre: "\<forall>q\<in>set pre. spec_passes pf fs this context (normalisePath q)" and
    r: "\<not> spec_passes pf fs this context (normalisePath r)"
    using split_list_first_prop [of rs "\<lambda>r. \<not> spec_passes pf fs this context (normalisePath r)"]
    by auto
  have "diskLoop pf fs this context (skipPackageJsonExactVerification context) rs
      = diskLoop pf fs this context (skipPackageJsonExactVerification context) (r # post)"
    unfolding rs using pre by (rule diskLoop_prefix)
  with r show ?thesis
    by (auto simp add: diskLoop_step spec_passes_def failure_inj
          reason_exists_neq_missing reason_mismatch_neq_missing
        simp del: diskLoop.simps split: option.splits sum.splits)
qed

lemma files_verify_disk_cases:
  "((\<forall>r\<in>set (relFilesOnDisk context). spec_passes pf fs this context (normalisePath r))
      \<longrightarrow> files_verify pf fs this context = Inr (listedLoop context (files this)))
   \<and> (relFilesOnDisk context = pre @ r # post
        \<and> (\<forall>q\<in>set pre. spec_passes pf fs this context (normalisePath q))
        \<and> normalisePath r \<notin> spec_skipSet context
        \<and> normalisePath r \<notin> path ` set (files this)
      \<longrightarrow> files_verify pf fs this context =
            Inr (Some (failure context
              (normalisePath r @ '' exists in the package, but was not in the signature''))))
   \<and> (relFilesOnDisk context = pre @ r # post
        \<and> (\<forall>q\<in>set pre. spec_passes pf fs this context (normalisePath q))
        \<and> normalisePath r \<notin> spec_skipSet context
        \<and> normalisePath r \<in> path ` set (files this)
        \<and> sha512OfFile pf fs (path_join pf (dir context) (normalisePath r)) = Inr h
        \<and> spec_listedHash (files this) (normalisePath r) \<noteq> Some h
      \<longrightarrow> files_verify pf fs this context =
            Inr (Some (failure context
              (normalisePath r @ '' does not have content that was signed for (mismatched hash)''))))"
proof (intro conjI impI)
  assume "\<forall>r\<in>set (relFilesOnDisk context). spec_passes pf fs this context (normalisePath r)"
  then show "files_verify pf fs this context = Inr (listedLoop context (files this))"
    by (simp add: files_verify_def diskLoop_all)
next
  assume a: "relFilesOnDisk context = pre @ r # post
        \<and> (\<forall>q\<in>set pre. spec_passes pf fs this context (normalisePath q))
        \<and> normalisePath r \<notin> spec_skipSet context
        \<and> normalisePath r \<notin> path ` set (files this)"
  then have "spec_listedHash (files this) (normalisePath r) = None"
    by (simp add: spec_listedHash_None)
  with a show "files_verify pf fs this context =
            Inr (Some (failure context
              (normalisePath r @ '' exists in the package, but was not in the signature'')))"
    by (simp add: files_verify_def diskLoop_prefix diskLoop_step del: diskLoop.simps)
next
  assume a: "relFilesOnDisk context = pre @ r # post
        \<and> (\<forall>q\<in>set pre. spec_passes pf fs this context (normalisePath q))
        \<and> normalisePath r \<notin> spec_skipSet context
        \<and> normalisePath r \<in> path ` set (files this)
        \<and> sha512OfFile pf fs (path_join pf (dir context) (normalisePath r)) = Inr h
        \<and> spec_listedHash (files this) (normalisePath r) \<noteq> Some h"
  then obtain h' where "spec_listedHash (files this) (normalisePath r) = Some h'" "h \<noteq> h'"
    using spec_listedHash_None [of "files this" "normalisePath r"]
    by (cases "spec_listedHash (files this) (normalisePath r)") auto
  with a show "files_verify pf fs this context =
            Inr (Some (failure context
              (normalisePath r @ '' does not have content that was signed for (mismatched hash)'')))"
    by (simp add: files_verify_def diskLoop_prefix diskLoop_step del: diskLoop.simps)
qed

lemma files_verify_listed_cases:
  "((\<forall>r\<in>set (relFilesOnDisk context). spec_passes pf fs this context (normalisePath r))
      \<and> files this = pre @ e # post
      \<and> (\<forall>x\<in>set pre. path x = ''signature.json''
             \<or> path x \<in> normalisePath ` set (relFilesOnDisk context))
      \<and> path e \<noteq> ''signature.json''
      \<and> path e \<notin> normalisePath ` set (relFilesOnDisk context)
     \<longrightarrow> files_verify pf fs this context =
           Inr (Some (failure context
             (path e @ '' is expected by the signature, but is missing in the package''))))
   \<and> ((\<forall>r\<in>set (relFilesOnDisk context). spec_passes pf fs this context (normalisePath r))
      \<and> (\<forall>x\<in>set (files this). path x = ''signature.json''
             \<or> path x \<in> normalisePath ` set (relFilesOnDisk context))
     \<longrightarrow> files_verify pf fs this context = Inr None)
   \<and> ((\<exists>r\<in>set (relFilesOnDisk context). \<not> spec_passes pf fs this context (normalisePath r))
     \<longrightarrow> files_verify pf fs this context \<noteq> Inr None
         \<and> files_verify pf fs this context \<noteq>
           Inr (Some (failure context
             (p @ '' is expected by the signature, but is missing in the package''))))"
proof (intro conjI impI)
  assume a: "(\<forall>r\<in>set (relFilesOnDisk context). spec_passes pf fs this context (normalisePath r))
      \<and> files this = pre @ e # post
      \<and> (\<forall>x\<in>set pre. path x = ''signature.json''
             \<or> path x \<in> normalisePath ` set (relFilesOnDisk context))
      \<and> path e \<noteq> ''signature.json''
      \<and> path e \<notin> normalisePath ` set (relFilesOnDisk context)"
  then have "listedLoop context (files this) = listedLoop context (e # post)"
    by (simp add: listedLoop_prefix)
  with a show "files_verify pf fs this context =
           Inr (Some (failure context
             (path e @ '' is expected by the signature, but is missing in the package'')))"
    by (simp add: files_verify_def diskLoop_all findOnDisk_eq)
next
  assume "(\<forall>r\<in>set (relFilesOnDisk context). spec_passes pf fs this context (normalisePath r))
      \<and> (\<forall>x\<in>set (files this). path x = ''signature.json''
             \<or> path x \<in> normalisePath ` set (relFilesOnDisk context))"
  then show "files_verify pf fs this context = Inr None"
    by (simp add: files_verify_def diskLoop_all listedLoop_all)
next
  assume a: "\<exists>r\<in>set (relFilesOnDisk context). \<not> spec_passes pf fs this context (normalisePath r)"
  from diskLoop_first_failure [OF a]
  show "files_verify pf fs this context \<noteq> Inr None"
    by (auto simp: files_verify_def split: sum.splits option.splits)
next
  assume a: "\<exists>r\<in>set (relFilesOnDisk context). \<not> spec_passes pf fs this context (normalisePath r)"
  from diskLoop_first_failure [OF a, of p]
  show "files_verify pf fs this context \<noteq>
           Inr (Some (failure context
             (p @ '' is expected by the signature, but is missing in the package'')))"
    by (auto simp: files_verify_def split: sum.splits option.splits)
qed

lemma files_verify_duplicate_case:
  assumes "relFilesOnDisk context = before @ r # after"
    and "\<forall>q\<in>set before. spec_passes pf fs this context (normalisePath q)"
    and "normalisePath r \<notin> spec_skipSet context"
    and "files this = pre @ e1 # mid @ e2 # post"
    and "path e1 = normalisePath r" and "path e2 = normalisePath r"
    and "\<forall>x\<in>set post. path x \<noteq> normalisePath r"
    and "sha512OfFile pf fs (path_join pf (dir context) (normalisePath r)) = Inr (sha512 e1)"
    and "sha512 e1 \<noteq> sha512 e2"
  shows "findExpected (files this) (normalisePath r) (False, None) = (True, Some (sha512 e2))
    \<and> files_verify pf fs this context =
        Inr (Some (failure context
          (normalisePath r @ '' does not have content that was signed for (mismatched hash)'')))"
proof -
  have none: "spec_listedHash post (normalisePath r) = None"
    using assms(7) by (auto simp: spec_listedHash_None)
  have "spec_listedHash (files this) (normalisePath r)
      = map_of (rev (map (\<lambda>e. (path e, sha512 e)) post) @ (path e2, sha512 e2)
                 # rev (map (\<lambda>e. (path e, sha512 e)) (pre @ e1 # mid))) (normalisePath r)"
    by (simp add: spec_listedHash_def assms(4))
  also have "\<dots> = Some (sha512 e2)"
    using none assms(6) by (simp add: spec_listedHash_def map_add_def split: option.splits)
  finally have lh: "spec_listedHash (files this) (normalisePath r) = Some (sha512 e2)" .
  then have fe: "findExpected (files this) (normalisePath r) (False, None) = (True, Some (sha512 e2))"
    by (simp add: findExpected_eq)
  have "files_verify pf fs this context =
        Inr (Some (failure context
          (normalisePath r @ '' does not have content that was signed for (mismatched hash)'')))"
    using assms(1,2,3,8,9) lh
    by (simp add: files_verify_def diskLoop_prefix diskLoop_step del: diskLoop.simps)
  with fe show ?thesis by simp
qed

lemma normalisePath_eq: "normalisePath = spec_forwardSlashes"
proof
  fix s
  show "normalisePath s = spec_forwardSlashes s"
    by (induction s) (simp_all add: normalisePath_def)
qed

lemma files_verify_unreadable:
  assumes "relFilesOnDisk context = pre @ r # post"
    and "\<forall>q\<in>set pre. spec_passes pf fs this context (normalisePath q)"
    and "normalisePath r \<notin> spec_skipSet context"
    and "normalisePath r \<in> path ` set (files this)"
    and "sha512OfFile pf fs (path_join pf (dir context) (normalisePath r)) = Inl e"
  shows "files_verify pf fs this context = Inl e"
proof -
  obtain h' where "spec_listedHash (files this) (normalisePath r) = Some h'"
    using assms(4) spec_listedHash_None [of "files this" "normalisePath r"]
    by (cases "spec_listedHash (files this) (normalisePath r)") auto
  with assms(1,2,3,5) show ?thesis
    by (simp add: files_verify_def diskLoop_prefix diskLoop_step del: diskLoop.simps)
qed

section \<open>Claims about the files entry\<close>

text \<open>
  C3, as amended. The canonical serialization of a files entry is the concatenation, over
  the pairs in their stored order, of path, line feed, hash, line feed. There is no
  sorting: two files entries that hold the same pairs in different orders, the orders
  disagreeing at some position, serialize to different strings, provided no path and no
  hash contains a line feed.
\<close>

theorem toDeterministicString_order:
  "toDeterministicString this = spec_serialization (files this) \<and>
   (lineFree (files a) \<and> lineFree (files b) \<and> mset (files a) = mset (files b) \<and>
    (\<exists>i < length (files a). files a ! i \<noteq> files b ! i)
      \<longrightarrow> toDeterministicString a \<noteq> toDeterministicString b)"
proof -
  have ser: "\<And>t. toDeterministicString t = spec_serialization (files t)"
    by (simp add: toDeterministicString_def serializeFiles_acc)
  show ?thesis
    using spec_serialization_inj [of "files a" "files b"] by (auto simp: ser)
qed

text \<open>
  The theorem at the entry of the example and the entry with its two pairs exchanged:
  the serializations differ.
\<close>

theorem toDeterministicString_order_witness:
  \<open>lineFree (files example_entry)
   \<and> lineFree [\<lparr>path = ''package.json'', sha512 = ''sha512:{"name":"p"}''\<rparr>,
               \<lparr>path = ''a.txt'', sha512 = ''sha512:hi''\<rparr>]
   \<and> mset (files example_entry)
       = mset [\<lparr>path = ''package.json'', sha512 = ''sha512:{"name":"p"}''\<rparr>,
               \<lparr>path = ''a.txt'', sha512 = ''sha512:hi''\<rparr>]
   \<and> files example_entry ! 0
       \<noteq> [\<lparr>path = ''package.json'', sha512 = ''sha512:{"name":"p"}''\<rparr>,
           \<lparr>path = ''a.txt'', sha512 = ''sha512:hi''\<rparr>] ! 0
   \<and> toDeterministicString example_entry
       \<noteq> toDeterministicString (new_SignatureFilesEntry
            [\<lparr>path = ''package.json'', sha512 = ''sha512:{"name":"p"}''\<rparr>,
             \<lparr>path = ''a.txt'', sha512 = ''sha512:hi''\<rparr>])\<close>
proof -
  let ?b = \<open>new_SignatureFilesEntry
            [\<lparr>path = ''package.json'', sha512 = ''sha512:{"name":"p"}''\<rparr>,
             \<lparr>path = ''a.txt'', sha512 = ''sha512:hi''\<rparr>]\<close>
  have h1: "lineFree (files example_entry)" and h2: "lineFree (files ?b)"
    by (simp_all add: lineFree_def example_entry_def new_SignatureFilesEntry_def)
  have h3: "mset (files example_entry) = mset (files ?b)"
    by (simp add: example_entry_def new_SignatureFilesEntry_def)
  have h4: "files example_entry ! 0 \<noteq> files ?b ! 0"
    by (simp add: example_entry_def new_SignatureFilesEntry_def)
  then have h5: "\<exists>i < length (files example_entry). files example_entry ! i \<noteq> files ?b ! i"
    by (intro exI [of _ 0]) (simp add: example_entry_def new_SignatureFilesEntry_def)
  from toDeterministicString_order [of example_entry example_entry ?b] h1 h2 h3 h5
  have "toDeterministicString example_entry \<noteq> toDeterministicString ?b"
    by blast
  with h1 h2 h3 h4 show ?thesis
    by (simp add: new_SignatureFilesEntry_def)
qed

text \<open>
  Without the proviso the statement fails: a hash (or a path) may hold line feeds. The pairs
  (\<open>a\<close>, \<open>b\<close>) and (\<open>a\<close>, \<open>b\<newline>a\<newline>b\<close>) in the two orders are the same pairs, the
  lists differ at position 0, and both serialize to \<open>a\<newline>b\<newline>a\<newline>b\<newline>a\<newline>b\<newline>\<close>.
\<close>

theorem toDeterministicString_order_counterexample:
  "mset [\<lparr>path = ''a'', sha512 = ''b''\<rparr>,
         \<lparr>path = ''a'', sha512 = [CHR ''b'', CHR 0x0A, CHR ''a'', CHR 0x0A, CHR ''b'']\<rparr>]
   = mset [\<lparr>path = ''a'', sha512 = [CHR ''b'', CHR 0x0A, CHR ''a'', CHR 0x0A, CHR ''b'']\<rparr>,
           \<lparr>path = ''a'', sha512 = ''b''\<rparr>]
   \<and> [\<lparr>path = ''a'', sha512 = ''b''\<rparr>,
       \<lparr>path = ''a'', sha512 = [CHR ''b'', CHR 0x0A, CHR ''a'', CHR 0x0A, CHR ''b'']\<rparr>] ! 0
     \<noteq> [\<lparr>path = ''a'', sha512 = [CHR ''b'', CHR 0x0A, CHR ''a'', CHR 0x0A, CHR ''b'']\<rparr>,
         \<lparr>path = ''a'', sha512 = ''b''\<rparr>] ! 0
   \<and> toDeterministicString (new_SignatureFilesEntry
         [\<lparr>path = ''a'', sha512 = ''b''\<rparr>,
          \<lparr>path = ''a'', sha512 = [CHR ''b'', CHR 0x0A, CHR ''a'', CHR 0x0A, CHR ''b'']\<rparr>])
     = toDeterministicString (new_SignatureFilesEntry
         [\<lparr>path = ''a'', sha512 = [CHR ''b'', CHR 0x0A, CHR ''a'', CHR 0x0A, CHR ''b'']\<rparr>,
          \<lparr>path = ''a'', sha512 = ''b''\<rparr>])"
  by (simp add: toDeterministicString_def new_SignatureFilesEntry_def)

text \<open>
  C1. The content check of a files entry examines the on-disk relative paths in order,
  each with its backslashes replaced by forward slashes, leaving out those of the skip
  set (\<open>signature.json\<close>, and \<open>package.json\<close> exactly when some entry of the document
  has the tag \<open>packageJson/v1alpha1\<close>). At the first path that does not pass it
  returns a result of status Compromised: with the reason "exists in the package, but
  was not in the signature" when the path is not listed, and otherwise with the reason
  "does not have content that was signed for (mismatched hash)" when the digest of the
  file differs from the listed hash. When every path passes, the loop yields no failure
  and the result is that of the loop over the listed files. When the file of a listed
  path cannot be hashed, the rejection is passed on.
\<close>

theorem files_verify_disk_paths:
  "((\<forall>r\<in>set (relFilesOnDisk context). spec_passes pf fs this context (spec_forwardSlashes r))
      \<longrightarrow> files_verify pf fs this context = Inr (listedLoop context (files this)))
   \<and> (relFilesOnDisk context = pre @ r # post
        \<and> (\<forall>q\<in>set pre. spec_passes pf fs this context (spec_forwardSlashes q))
        \<and> spec_forwardSlashes r \<notin> spec_skipSet context
        \<and> spec_forwardSlashes r \<notin> path ` set (files this)
      \<longrightarrow> files_verify pf fs this context =
            Inr (Some
              \<lparr>status = Compromised, packageName = expectedPackageName context,
               reason = Some (spec_forwardSlashes r @
                        '' exists in the package, but was not in the signature''),
               untrustedIdentity = VerificationContext.untrustedIdentity context,
               untrustedPackageVersion = VerificationContext.untrustedPackageVersion context,
               isPrivate = VerificationContext.isPrivate context\<rparr>))
   \<and> (relFilesOnDisk context = pre @ r # post
        \<and> (\<forall>q\<in>set pre. spec_passes pf fs this context (spec_forwardSlashes q))
        \<and> spec_forwardSlashes r \<notin> spec_skipSet context
        \<and> spec_forwardSlashes r \<in> path ` set (files this)
        \<and> sha512OfFile pf fs (path_join pf (dir context) (spec_forwardSlashes r)) = Inr h
        \<and> spec_listedHash (files this) (spec_forwardSlashes r) \<noteq> Some h
      \<longrightarrow> files_verify pf fs this context =
            Inr (Some
              \<lparr>status = Compromised, packageName = expectedPackageName context,
               reason = Some (spec_forwardSlashes r @
                        '' does not have content that was signed for (mismatched hash)''),
               untrustedIdentity = VerificationContext.untrustedIdentity context,
               untrustedPackageVersion = VerificationContext.untrustedPackageVersion context,
               isPrivate = VerificationContext.isPrivate context\<rparr>))
   \<and> (relFilesOnDisk context = pre @ r # post
        \<and> (\<forall>q\<in>set pre. spec_passes pf fs this context (spec_forwardSlashes q))
        \<and> spec_forwardSlashes r \<notin> spec_skipSet context
        \<and> spec_forwardSlashes r \<in> path ` set (files this)
        \<and> sha512OfFile pf fs (path_join pf (dir context) (spec_forwardSlashes r)) = Inl x
      \<longrightarrow> files_verify pf fs this context = Inl x)"
proof -
  note abc = files_verify_disk_cases
    [of "context" pf fs this pre r post h, unfolded normalisePath_eq failure_def]
  have d: "relFilesOnDisk context = pre @ r # post
        \<and> (\<forall>q\<in>set pre. spec_passes pf fs this context (spec_forwardSlashes q))
        \<and> spec_forwardSlashes r \<notin> spec_skipSet context
        \<and> spec_forwardSlashes r \<in> path ` set (files this)
        \<and> sha512OfFile pf fs (path_join pf (dir context) (spec_forwardSlashes r)) = Inl x
      \<longrightarrow> files_verify pf fs this context = Inl x"
    using files_verify_unreadable [of "context" pre r post pf fs this x]
    unfolding normalisePath_eq by blast
  from abc d show ?thesis
    by (elim conjE) (intro conjI, assumption+)
qed

text \<open>
  The theorem on the package walked on the Windows host. As it is, every on-disk path
  passes, \<^verbatim>\<open>lib\x.js\<close> as the listed \<open>lib/x.js\<close>; with a file \<^verbatim>\<open>src\y.js\<close> added on
  disk (scenario 4 of the specification) the check fails at it; with the contents of
  \<open>lib/x.js\<close> replaced (scenario 3) the digests differ; with that file gone from the
  directory the hashing is rejected.
\<close>

theorem files_verify_disk_paths_witness:
  "spec_forwardSlashes [CHR ''l'', CHR ''i'', CHR ''b'', CHR 0x5C, CHR ''x'', CHR ''.'', CHR ''j'', CHR ''s''] = ''lib/x.js''
   \<and> list_all (\<lambda>r. spec_passes example_host example_lib_fs example_lib_entry example_lib_context
                    (spec_forwardSlashes r))
        (relFilesOnDisk example_lib_context)
   \<and> files_verify example_host example_lib_fs example_lib_entry example_lib_context = Inr None
   \<and> spec_forwardSlashes [CHR ''s'', CHR ''r'', CHR ''c'', CHR 0x5C, CHR ''y'', CHR ''.'', CHR ''j'', CHR ''s'']
        \<notin> spec_skipSet example_lib_context
   \<and> spec_forwardSlashes [CHR ''s'', CHR ''r'', CHR ''c'', CHR 0x5C, CHR ''y'', CHR ''.'', CHR ''j'', CHR ''s'']
        \<notin> path ` set (files example_lib_entry)
   \<and> files_verify example_host example_lib_fs example_lib_entry
        (example_lib_context\<lparr>relFilesOnDisk :=
           [''a.txt'', [CHR ''l'', CHR ''i'', CHR ''b'', CHR 0x5C, CHR ''x'', CHR ''.'', CHR ''j'', CHR ''s''],
            [CHR ''s'', CHR ''r'', CHR ''c'', CHR 0x5C, CHR ''y'', CHR ''.'', CHR ''j'', CHR ''s''], ''package.json'']\<rparr>)
       = Inr (Some
           \<lparr>status = Compromised, packageName = ''p'',
            reason = Some ''src/y.js exists in the package, but was not in the signature'',
            untrustedIdentity = None, untrustedPackageVersion = None, isPrivate = None\<rparr>)
   \<and> sha512OfFile example_host
        (example_lib_fs\<lparr>regular := (regular example_lib_fs)(''/p/lib/x.js'' \<mapsto> ''y'')\<rparr>)
        ''/p/lib/x.js'' = Inr ''sha512:y''
   \<and> spec_listedHash (files example_lib_entry) ''lib/x.js'' = Some ''sha512:x''
   \<and> files_verify example_host
        (example_lib_fs\<lparr>regular := (regular example_lib_fs)(''/p/lib/x.js'' \<mapsto> ''y'')\<rparr>)
        example_lib_entry example_lib_context
       = Inr (Some
           \<lparr>status = Compromised, packageName = ''p'',
            reason = Some ''lib/x.js does not have content that was signed for (mismatched hash)'',
            untrustedIdentity = None, untrustedPackageVersion = None, isPrivate = None\<rparr>)
   \<and> sha512OfFile example_host example_fs ''/p/lib/x.js'' = Inl (IOError ''/p/lib/x.js'')
   \<and> files_verify example_host example_fs example_lib_entry example_lib_context
       = Inl (IOError ''/p/lib/x.js'')"
proof -
  note ev = example_lib_context_def example_lib_entry_def example_lib_fs_def example_fs_def
    example_host_def example_join_def example_digest_def new_SignatureFilesEntry_def
    spec_passes_def spec_skipSet_def spec_listedHash_def sha512OfFile_def
  let ?w = "[CHR ''l'', CHR ''i'', CHR ''b'', CHR 0x5C, CHR ''x'', CHR ''.'', CHR ''j'', CHR ''s'']"
  let ?y = "[CHR ''s'', CHR ''r'', CHR ''c'', CHR 0x5C, CHR ''y'', CHR ''.'', CHR ''j'', CHR ''s'']"
  let ?fs = "example_lib_fs\<lparr>regular := (regular example_lib_fs)(''/p/lib/x.js'' \<mapsto> ''y'')\<rparr>"
  let ?cb = "example_lib_context\<lparr>relFilesOnDisk := [''a.txt'', ?w, ?y, ''package.json'']\<rparr>"
  have w: "spec_forwardSlashes ?w = ''lib/x.js''" and y: "spec_forwardSlashes ?y = ''src/y.js''"
    by simp_all
  have j: "path_join example_host (dir example_lib_context) ''lib/x.js'' = ''/p/lib/x.js''"
    by (simp add: ev)
  have p1: "\<forall>r\<in>set (relFilesOnDisk example_lib_context).
       spec_passes example_host example_lib_fs example_lib_entry example_lib_context (spec_forwardSlashes r)"
    by (simp add: ev)
  have l1: "listedLoop example_lib_context (files example_lib_entry) = None"
    by (simp add: ev normalisePath_def)
  have b1: "relFilesOnDisk ?cb = [''a.txt'', ?w] @ ?y # [''package.json'']"
    by (simp add: ev)
  have b2: "\<forall>q\<in>set [''a.txt'', ?w].
       spec_passes example_host example_lib_fs example_lib_entry ?cb (spec_forwardSlashes q)"
    by (simp add: ev)
  have b3: "spec_forwardSlashes ?y \<notin> spec_skipSet ?cb"
    and b3': "spec_forwardSlashes ?y \<notin> spec_skipSet example_lib_context"
    by (simp_all add: ev)
  have b4: "spec_forwardSlashes ?y \<notin> path ` set (files example_lib_entry)"
    by (simp add: ev)
  have c1: "relFilesOnDisk example_lib_context = [''a.txt''] @ ?w # [''package.json'', ''signature.json'']"
    by (simp add: ev)
  have c2p: "\<forall>q\<in>set [''a.txt'']. spec_passes example_host ?fs example_lib_entry example_lib_context
       (spec_forwardSlashes q)"
    and c2q: "\<forall>q\<in>set [''a.txt'']. spec_passes example_host example_fs example_lib_entry example_lib_context
       (spec_forwardSlashes q)"
    by (simp_all add: ev)
  have c2: "spec_forwardSlashes ?w \<notin> spec_skipSet example_lib_context"
    by (simp add: ev)
  have c3: "spec_forwardSlashes ?w \<in> path ` set (files example_lib_entry)"
    by (simp add: ev)
  have c4: "sha512OfFile example_host ?fs ''/p/lib/x.js'' = Inr ''sha512:y''"
    by (simp add: ev)
  have c5: "spec_listedHash (files example_lib_entry) ''lib/x.js'' = Some ''sha512:x''"
    by (simp add: ev)
  have d4: "sha512OfFile example_host example_fs ''/p/lib/x.js'' = Inl (IOError ''/p/lib/x.js'')"
    by (simp add: ev)
  have rc: "expectedPackageName example_lib_context = ''p''"
    "VerificationContext.untrustedIdentity example_lib_context = None"
    "VerificationContext.untrustedPackageVersion example_lib_context = None"
    "VerificationContext.isPrivate example_lib_context = None"
    by (simp_all add: example_lib_context_def)
  from files_verify_disk_paths
         [of example_lib_context example_host example_lib_fs example_lib_entry] p1 l1
  have r1: "files_verify example_host example_lib_fs example_lib_entry example_lib_context = Inr None"
    by simp
  from files_verify_disk_paths
         [of ?cb example_host example_lib_fs example_lib_entry "[''a.txt'', ?w]" ?y
             "[''package.json'']"]
       b1 b2 b3 b4
  have r2: "files_verify example_host example_lib_fs example_lib_entry ?cb =
       Inr (Some
           \<lparr>status = Compromised, packageName = expectedPackageName ?cb,
            reason = Some (spec_forwardSlashes ?y @ '' exists in the package, but was not in the signature''),
            untrustedIdentity = VerificationContext.untrustedIdentity ?cb,
            untrustedPackageVersion = VerificationContext.untrustedPackageVersion ?cb,
            isPrivate = VerificationContext.isPrivate ?cb\<rparr>)"
    by blast
  from files_verify_disk_paths
         [of example_lib_context example_host ?fs example_lib_entry "[''a.txt'']" ?w
             "[''package.json'', ''signature.json'']" "''sha512:y''"]
       c1 c2p c2 c3 c4 c5
  have r3: "files_verify example_host ?fs example_lib_entry example_lib_context =
       Inr (Some
           \<lparr>status = Compromised, packageName = expectedPackageName example_lib_context,
            reason = Some (''lib/x.js'' @ '' does not have content that was signed for (mismatched hash)''),
            untrustedIdentity = VerificationContext.untrustedIdentity example_lib_context,
            untrustedPackageVersion = VerificationContext.untrustedPackageVersion example_lib_context,
            isPrivate = VerificationContext.isPrivate example_lib_context\<rparr>)"
    unfolding w j by simp
  from files_verify_disk_paths
         [of example_lib_context example_host example_fs example_lib_entry "[''a.txt'']" ?w
             "[''package.json'', ''signature.json'']" _ "IOError ''/p/lib/x.js''"]
       c1 c2q c2 c3 d4
  have r4: "files_verify example_host example_fs example_lib_entry example_lib_context
       = Inl (IOError ''/p/lib/x.js'')"
    unfolding w j by simp
  have r2': "files_verify example_host example_lib_fs example_lib_entry ?cb =
       Inr (Some
           \<lparr>status = Compromised, packageName = ''p'',
            reason = Some ''src/y.js exists in the package, but was not in the signature'',
            untrustedIdentity = None, untrustedPackageVersion = None, isPrivate = None\<rparr>)"
    using r2 unfolding y by (simp add: rc)
  have r3': "files_verify example_host ?fs example_lib_entry example_lib_context =
       Inr (Some
           \<lparr>status = Compromised, packageName = ''p'',
            reason = Some ''lib/x.js does not have content that was signed for (mismatched hash)'',
            untrustedIdentity = None, untrustedPackageVersion = None, isPrivate = None\<rparr>)"
    using r3 by (simp add: rc)
  have p1': "list_all (\<lambda>r. spec_passes example_host example_lib_fs example_lib_entry example_lib_context
                    (spec_forwardSlashes r)) (relFilesOnDisk example_lib_context)"
    using p1 by (simp only: list_all_iff)
  from w p1' r1 b3' b4 r2' c4 c5 r3' d4 r4 show ?thesis
    by blast
qed

text \<open>
  C2. When every on-disk path has passed the first loop, the content check goes through
  the listed paths in order and returns a result of status Compromised with the reason
  "is expected by the signature, but is missing in the package" at the first listed path
  other than \<open>signature.json\<close> that is not among the on-disk paths with their
  backslashes replaced by forward slashes; \<open>package.json\<close> is not exempt, whatever the
  entries of the document. When no listed path is missing the check returns no failure.
  When some on-disk path does not pass the first loop, the result is neither "no
  failure" nor a missing-file failure: the second loop is not reached.
\<close>

theorem files_verify_listed_paths:
  "((\<forall>r\<in>set (relFilesOnDisk context). spec_passes pf fs this context (spec_forwardSlashes r))
      \<and> files this = pre @ e # post
      \<and> (\<forall>x\<in>set pre. path x = ''signature.json''
             \<or> path x \<in> spec_forwardSlashes ` set (relFilesOnDisk context))
      \<and> path e \<noteq> ''signature.json''
      \<and> path e \<notin> spec_forwardSlashes ` set (relFilesOnDisk context)
     \<longrightarrow> files_verify pf fs this context =
           Inr (Some
             \<lparr>status = Compromised, packageName = expectedPackageName context,
              reason = Some (path e @
                       '' is expected by the signature, but is missing in the package''),
              untrustedIdentity = VerificationContext.untrustedIdentity context,
              untrustedPackageVersion = VerificationContext.untrustedPackageVersion context,
              isPrivate = VerificationContext.isPrivate context\<rparr>))
   \<and> ((\<forall>r\<in>set (relFilesOnDisk context). spec_passes pf fs this context (spec_forwardSlashes r))
      \<and> (\<forall>x\<in>set (files this). path x = ''signature.json''
             \<or> path x \<in> spec_forwardSlashes ` set (relFilesOnDisk context))
     \<longrightarrow> files_verify pf fs this context = Inr None)
   \<and> ((\<exists>r\<in>set (relFilesOnDisk context). \<not> spec_passes pf fs this context (spec_forwardSlashes r))
     \<longrightarrow> files_verify pf fs this context \<noteq> Inr None
         \<and> files_verify pf fs this context \<noteq>
           Inr (Some
             \<lparr>status = Compromised, packageName = expectedPackageName context,
              reason = Some (p @
                       '' is expected by the signature, but is missing in the package''),
              untrustedIdentity = VerificationContext.untrustedIdentity context,
              untrustedPackageVersion = VerificationContext.untrustedPackageVersion context,
              isPrivate = VerificationContext.isPrivate context\<rparr>))"
  by (rule files_verify_listed_cases
        [of "context" pf fs this pre e post p, unfolded normalisePath_eq failure_def])

text \<open>
  The theorem on the package walked on the Windows host. With \<open>package.json\<close> gone
  from the disk and a package-manifest entry in the document, the listed
  \<open>package.json\<close> is reported missing, while the listed \<open>lib/x.js\<close> is found as
  \<^verbatim>\<open>lib\x.js\<close>; the package as it is has no failure; with \<^verbatim>\<open>src\y.js\<close> added on disk
  the failure is that of the first loop.
\<close>

theorem files_verify_listed_paths_witness:
  "list_all (\<lambda>r. spec_passes example_host example_lib_fs example_lib_entry
         (example_lib_context\<lparr>relFilesOnDisk :=
              [[CHR ''l'', CHR ''i'', CHR ''b'', CHR 0x5C, CHR ''x'', CHR ''.'', CHR ''j'', CHR ''s''], ''a.txt'', ''signature.json''],
            signatureEntries := [\<lparr>entry = ''files/v1alpha1''\<rparr>, \<lparr>entry = ''packageJson/v1alpha1''\<rparr>]\<rparr>)
         (spec_forwardSlashes r))
      [[CHR ''l'', CHR ''i'', CHR ''b'', CHR 0x5C, CHR ''x'', CHR ''.'', CHR ''j'', CHR ''s''], ''a.txt'', ''signature.json'']
   \<and> ''package.json'' \<in> spec_skipSet
         (example_lib_context\<lparr>relFilesOnDisk :=
              [[CHR ''l'', CHR ''i'', CHR ''b'', CHR 0x5C, CHR ''x'', CHR ''.'', CHR ''j'', CHR ''s''], ''a.txt'', ''signature.json''],
            signatureEntries := [\<lparr>entry = ''files/v1alpha1''\<rparr>, \<lparr>entry = ''packageJson/v1alpha1''\<rparr>]\<rparr>)
   \<and> ''lib/x.js'' \<in> spec_forwardSlashes `
         set [[CHR ''l'', CHR ''i'', CHR ''b'', CHR 0x5C, CHR ''x'', CHR ''.'', CHR ''j'', CHR ''s''], ''a.txt'', ''signature.json'']
   \<and> ''package.json'' \<notin> spec_forwardSlashes `
         set [[CHR ''l'', CHR ''i'', CHR ''b'', CHR 0x5C, CHR ''x'', CHR ''.'', CHR ''j'', CHR ''s''], ''a.txt'', ''signature.json'']
   \<and> files_verify example_host example_lib_fs example_lib_entry
         (example_lib_context\<lparr>relFilesOnDisk :=
              [[CHR ''l'', CHR ''i'', CHR ''b'', CHR 0x5C, CHR ''x'', CHR ''.'', CHR ''j'', CHR ''s''], ''a.txt'', ''signature.json''],
            signatureEntries := [\<lparr>entry = ''files/v1alpha1''\<rparr>, \<lparr>entry = ''packageJson/v1alpha1''\<rparr>]\<rparr>)
       = Inr (Some
           \<lparr>status = Compromised, packageName = ''p'',
            reason = Some ''package.json is expected by the signature, but is missing in the package'',
            untrustedIdentity = None, untrustedPackageVersion = None, isPrivate = None\<rparr>)
   \<and> list_all (\<lambda>r. spec_passes example_host example_lib_fs example_lib_entry example_lib_context (spec_forwardSlashes r))
        (relFilesOnDisk example_lib_context)
   \<and> list_all (\<lambda>x. path x = ''signature.json''
         \<or> path x \<in> spec_forwardSlashes ` set (relFilesOnDisk example_lib_context))
        (files example_lib_entry)
   \<and> files_verify example_host example_lib_fs example_lib_entry example_lib_context = Inr None
   \<and> \<not> spec_passes example_host example_lib_fs example_lib_entry
         (example_lib_context\<lparr>relFilesOnDisk :=
              [''a.txt'', [CHR ''s'', CHR ''r'', CHR ''c'', CHR 0x5C, CHR ''y'', CHR ''.'', CHR ''j'', CHR ''s'']]\<rparr>)
         (spec_forwardSlashes [CHR ''s'', CHR ''r'', CHR ''c'', CHR 0x5C, CHR ''y'', CHR ''.'', CHR ''j'', CHR ''s''])
   \<and> files_verify example_host example_lib_fs example_lib_entry
         (example_lib_context\<lparr>relFilesOnDisk :=
              [''a.txt'', [CHR ''s'', CHR ''r'', CHR ''c'', CHR 0x5C, CHR ''y'', CHR ''.'', CHR ''j'', CHR ''s'']]\<rparr>) \<noteq> Inr None
   \<and> files_verify example_host example_lib_fs example_lib_entry
         (example_lib_context\<lparr>relFilesOnDisk :=
              [''a.txt'', [CHR ''s'', CHR ''r'', CHR ''c'', CHR 0x5C, CHR ''y'', CHR ''.'', CHR ''j'', CHR ''s'']]\<rparr>)
       \<noteq> Inr (Some
           \<lparr>status = Compromised, packageName = ''p'',
            reason = Some ''package.json is expected by the signature, but is missing in the package'',
            untrustedIdentity = None, untrustedPackageVersion = None, isPrivate = None\<rparr>)"
proof -
  note ev = example_lib_context_def example_lib_entry_def example_lib_fs_def example_host_def
    example_join_def example_digest_def new_SignatureFilesEntry_def
    spec_passes_def spec_skipSet_def spec_listedHash_def sha512OfFile_def
  let ?w = "[CHR ''l'', CHR ''i'', CHR ''b'', CHR 0x5C, CHR ''x'', CHR ''.'', CHR ''j'', CHR ''s'']"
  let ?y = "[CHR ''s'', CHR ''r'', CHR ''c'', CHR 0x5C, CHR ''y'', CHR ''.'', CHR ''j'', CHR ''s'']"
  let ?ca = "example_lib_context\<lparr>relFilesOnDisk := [?w, ''a.txt'', ''signature.json''],
            signatureEntries := [\<lparr>entry = ''files/v1alpha1''\<rparr>, \<lparr>entry = ''packageJson/v1alpha1''\<rparr>]\<rparr>"
  let ?cc = "example_lib_context\<lparr>relFilesOnDisk := [''a.txt'', ?y]\<rparr>"
  let ?ax = "\<lparr>path = ''a.txt'', sha512 = ''sha512:hi''\<rparr>"
  let ?lx = "\<lparr>path = ''lib/x.js'', sha512 = ''sha512:x''\<rparr>"
  let ?pj = \<open>\<lparr>path = ''package.json'', sha512 = ''sha512:{"name":"p"}''\<rparr>\<close>
  have a1: "\<forall>r\<in>set (relFilesOnDisk ?ca).
       spec_passes example_host example_lib_fs example_lib_entry ?ca (spec_forwardSlashes r)"
    by (simp add: ev)
  have a2: "files example_lib_entry = [?ax, ?lx] @ ?pj # []"
    by (simp add: ev)
  have a3: "\<forall>x\<in>set [?ax, ?lx]. path x = ''signature.json''
             \<or> path x \<in> spec_forwardSlashes ` set (relFilesOnDisk ?ca)"
    by (simp add: ev)
  have a4: "path ?pj \<noteq> ''signature.json''"
    by simp
  have a5: "path ?pj \<notin> spec_forwardSlashes ` set (relFilesOnDisk ?ca)"
    by (simp add: ev)
  have a6: "''package.json'' \<in> spec_skipSet ?ca"
    by (simp add: ev)
  have a7: "''lib/x.js'' \<in> spec_forwardSlashes ` set [?w, ''a.txt'', ''signature.json'']"
    by simp
  have rc: "expectedPackageName c = ''p''"
    "VerificationContext.untrustedIdentity c = None"
    "VerificationContext.untrustedPackageVersion c = None"
    "VerificationContext.isPrivate c = None"
    if "c = ?ca \<or> c = ?cc" for c
    using that by (auto simp: example_lib_context_def)
  from files_verify_listed_paths
         [of ?ca example_host example_lib_fs example_lib_entry "[?ax, ?lx]" ?pj "[]"]
       a1 a2 a3 a4 a5
  have r1: "files_verify example_host example_lib_fs example_lib_entry ?ca =
           Inr (Some
             \<lparr>status = Compromised, packageName = expectedPackageName ?ca,
              reason = Some (path ?pj @ '' is expected by the signature, but is missing in the package''),
              untrustedIdentity = VerificationContext.untrustedIdentity ?ca,
              untrustedPackageVersion = VerificationContext.untrustedPackageVersion ?ca,
              isPrivate = VerificationContext.isPrivate ?ca\<rparr>)"
    by blast
  have b1: "\<forall>r\<in>set (relFilesOnDisk example_lib_context).
         spec_passes example_host example_lib_fs example_lib_entry example_lib_context (spec_forwardSlashes r)"
    by (simp add: ev)
  have b2: "\<forall>x\<in>set (files example_lib_entry). path x = ''signature.json''
         \<or> path x \<in> spec_forwardSlashes ` set (relFilesOnDisk example_lib_context)"
    by (simp add: ev)
  from files_verify_listed_paths
         [of example_lib_context example_host example_lib_fs example_lib_entry] b1 b2
  have r2: "files_verify example_host example_lib_fs example_lib_entry example_lib_context = Inr None"
    by blast
  have c1: "\<not> spec_passes example_host example_lib_fs example_lib_entry ?cc (spec_forwardSlashes ?y)"
    by (simp add: ev)
  then have c2: "\<exists>r\<in>set (relFilesOnDisk ?cc).
       \<not> spec_passes example_host example_lib_fs example_lib_entry ?cc (spec_forwardSlashes r)"
    by (simp add: example_lib_context_def)
  from files_verify_listed_paths
         [of ?cc example_host example_lib_fs example_lib_entry _ _ _ "''package.json''"] c2
  have r3: "files_verify example_host example_lib_fs example_lib_entry ?cc \<noteq> Inr None
         \<and> files_verify example_host example_lib_fs example_lib_entry ?cc \<noteq>
           Inr (Some
             \<lparr>status = Compromised, packageName = expectedPackageName ?cc,
              reason = Some (''package.json'' @ '' is expected by the signature, but is missing in the package''),
              untrustedIdentity = VerificationContext.untrustedIdentity ?cc,
              untrustedPackageVersion = VerificationContext.untrustedPackageVersion ?cc,
              isPrivate = VerificationContext.isPrivate ?cc\<rparr>)"
    by blast
  have r1': "files_verify example_host example_lib_fs example_lib_entry ?ca =
           Inr (Some
             \<lparr>status = Compromised, packageName = ''p'',
            reason = Some ''package.json is expected by the signature, but is missing in the package'',
            untrustedIdentity = None, untrustedPackageVersion = None, isPrivate = None\<rparr>)"
    using r1 by (simp add: rc)
  have r3a: "files_verify example_host example_lib_fs example_lib_entry ?cc \<noteq> Inr None"
    and r3b: "files_verify example_host example_lib_fs example_lib_entry ?cc \<noteq>
           Inr (Some
             \<lparr>status = Compromised, packageName = ''p'',
            reason = Some ''package.json is expected by the signature, but is missing in the package'',
            untrustedIdentity = None, untrustedPackageVersion = None, isPrivate = None\<rparr>)"
    using r3 by (simp_all add: rc)
  have a1': "list_all (\<lambda>r. spec_passes example_host example_lib_fs example_lib_entry ?ca (spec_forwardSlashes r))
      [?w, ''a.txt'', ''signature.json'']"
    using a1 by (simp add: list_all_iff)
  have a5': "''package.json'' \<notin> spec_forwardSlashes ` set [?w, ''a.txt'', ''signature.json'']"
    using a5 by simp
  have b1': "list_all (\<lambda>r. spec_passes example_host example_lib_fs example_lib_entry example_lib_context
        (spec_forwardSlashes r)) (relFilesOnDisk example_lib_context)"
    using b1 by (simp only: list_all_iff)
  have b2': "list_all (\<lambda>x. path x = ''signature.json''
         \<or> path x \<in> spec_forwardSlashes ` set (relFilesOnDisk example_lib_context))
        (files example_lib_entry)"
    using b2 by (simp only: list_all_iff)
  from a1' a6 a7 a5' r1' b1' b2' r2 c1 r3a r3b show ?thesis
    by blast
qed

text \<open>
  C9. When a path occurs more than once in the list of a files entry, the search runs to
  the end of the list, so the hash compared is that of the last occurrence: a file
  whose digest is the hash of an earlier occurrence, and not that of the last one,
  yields a result of status Compromised with the mismatched-hash reason.
\<close>

theorem files_verify_duplicate_path:
  assumes "relFilesOnDisk context = before @ r # after"
    and "\<forall>q\<in>set before. spec_passes pf fs this context (spec_forwardSlashes q)"
    and "spec_forwardSlashes r \<notin> spec_skipSet context"
    and "files this = pre @ e1 # mid @ e2 # post"
    and "path e1 = spec_forwardSlashes r" and "path e2 = spec_forwardSlashes r"
    and "\<forall>x\<in>set post. path x \<noteq> spec_forwardSlashes r"
    and "sha512OfFile pf fs (path_join pf (dir context) (spec_forwardSlashes r)) = Inr (sha512 e1)"
    and "sha512 e1 \<noteq> sha512 e2"
  shows "findExpected (files this) (spec_forwardSlashes r) (False, None) = (True, Some (sha512 e2))
    \<and> files_verify pf fs this context =
        Inr (Some
          \<lparr>status = Compromised, packageName = expectedPackageName context,
           reason = Some (spec_forwardSlashes r @
                    '' does not have content that was signed for (mismatched hash)''),
           untrustedIdentity = VerificationContext.untrustedIdentity context,
           untrustedPackageVersion = VerificationContext.untrustedPackageVersion context,
           isPrivate = VerificationContext.isPrivate context\<rparr>)"
proof -
  note a = assms [folded normalisePath_eq]
  from files_verify_duplicate_case [OF a] show ?thesis
    unfolding normalisePath_eq failure_def .
qed

text \<open>
  The theorem on a list that has \<open>lib/x.js\<close> twice, first with the digest of the file
  on disk, then with another hash; the walk reports the file as \<^verbatim>\<open>lib\x.js\<close>.
\<close>

theorem files_verify_duplicate_path_witness:
  "sha512OfFile example_host example_lib_fs ''/p/lib/x.js'' = Inr ''sha512:x''
   \<and> findExpected
        [\<lparr>path = ''lib/x.js'', sha512 = ''sha512:x''\<rparr>, \<lparr>path = ''lib/x.js'', sha512 = ''sha512:other''\<rparr>]
        ''lib/x.js'' (False, None) = (True, Some ''sha512:other'')
   \<and> files_verify example_host example_lib_fs
        (new_SignatureFilesEntry
           [\<lparr>path = ''lib/x.js'', sha512 = ''sha512:x''\<rparr>,
            \<lparr>path = ''lib/x.js'', sha512 = ''sha512:other''\<rparr>])
        (example_lib_context\<lparr>relFilesOnDisk :=
           [[CHR ''l'', CHR ''i'', CHR ''b'', CHR 0x5C, CHR ''x'', CHR ''.'', CHR ''j'', CHR ''s'']]\<rparr>)
     = Inr (Some
         \<lparr>status = Compromised, packageName = ''p'',
          reason = Some ''lib/x.js does not have content that was signed for (mismatched hash)'',
          untrustedIdentity = None, untrustedPackageVersion = None, isPrivate = None\<rparr>)"
proof -
  note ev = example_lib_context_def example_lib_fs_def example_host_def
    example_join_def example_digest_def new_SignatureFilesEntry_def
    spec_passes_def spec_skipSet_def spec_listedHash_def sha512OfFile_def
  let ?w = "[CHR ''l'', CHR ''i'', CHR ''b'', CHR 0x5C, CHR ''x'', CHR ''.'', CHR ''j'', CHR ''s'']"
  let ?c = "example_lib_context\<lparr>relFilesOnDisk := [?w]\<rparr>"
  let ?e1 = "\<lparr>path = ''lib/x.js'', sha512 = ''sha512:x''\<rparr>"
  let ?e2 = "\<lparr>path = ''lib/x.js'', sha512 = ''sha512:other''\<rparr>"
  let ?t = "new_SignatureFilesEntry [?e1, ?e2]"
  have n: "spec_forwardSlashes ?w = ''lib/x.js''"
    by simp
  have h1: "relFilesOnDisk ?c = [] @ ?w # []"
    by simp
  have h2: "\<forall>q\<in>set []. spec_passes example_host example_lib_fs ?t ?c (spec_forwardSlashes q)"
    by simp
  have h3: "spec_forwardSlashes ?w \<notin> spec_skipSet ?c"
    by (simp add: ev)
  have h4: "files ?t = [] @ ?e1 # [] @ ?e2 # []"
    by (simp add: new_SignatureFilesEntry_def)
  have h5: "path ?e1 = spec_forwardSlashes ?w" and h6: "path ?e2 = spec_forwardSlashes ?w"
    by simp_all
  have h7: "\<forall>x\<in>set []. path x \<noteq> spec_forwardSlashes ?w"
    by simp
  have h8: "sha512OfFile example_host example_lib_fs
              (path_join example_host (dir ?c) (spec_forwardSlashes ?w)) = Inr (sha512 ?e1)"
    by (simp add: ev)
  have h8': "sha512OfFile example_host example_lib_fs ''/p/lib/x.js'' = Inr ''sha512:x''"
    by (simp add: ev)
  have h9: "sha512 ?e1 \<noteq> sha512 ?e2"
    by simp
  have rc: "expectedPackageName ?c = ''p''"
    "VerificationContext.untrustedIdentity ?c = None"
    "VerificationContext.untrustedPackageVersion ?c = None"
    "VerificationContext.isPrivate ?c = None"
    by (simp_all add: example_lib_context_def)
  have f: "files ?t = [?e1, ?e2]"
    by (simp add: new_SignatureFilesEntry_def)
  from files_verify_duplicate_path [OF h1 h2 h3 h4 h5 h6 h7 h8 h9]
  have "findExpected [?e1, ?e2] ''lib/x.js'' (False, None) = (True, Some ''sha512:other'')"
    and "files_verify example_host example_lib_fs ?t ?c =
      Inr (Some
         \<lparr>status = Compromised, packageName = ''p'',
          reason = Some ''lib/x.js does not have content that was signed for (mismatched hash)'',
          untrustedIdentity = None, untrustedPackageVersion = None, isPrivate = None\<rparr>)"
    unfolding n f by (simp_all add: rc)
  with h8' show ?thesis by blast
qed

section \<open>Lemmas about the trust store\<close>

lemma createTrustStoreIfNecessary_Inr:
  assumes "createTrustStoreIfNecessary pf fs = (Inr folder, fs')"
  shows "\<exists>home. (if isWin pf then env_USERPROFILE pf else env_HOME pf) = Some home
           \<and> folder = path_join pf home ''.pkgsign-trust-store''"
    and "existsSync fs' folder"
    and "regular fs' = regular fs"
    and "existsSync fs folder \<Longrightarrow> fs' = fs"
    and "\<not> existsSync fs folder \<Longrightarrow>
           path_dirname pf folder \<in> folders fs \<and> fs' = fs\<lparr>folders := insert folder (folders fs)\<rparr>"
  using assms
  by (auto simp: createTrustStoreIfNecessary_def mkdirSync_def existsSync_def Let_def
           split: option.splits if_splits)

lemma createTrustStoreIfNecessary_Inl:
  "createTrustStoreIfNecessary pf fs = (Inl e, fs') \<Longrightarrow> fs' = fs"
  by (auto simp: createTrustStoreIfNecessary_def mkdirSync_def Let_def
           split: option.splits if_splits)

lemma createTrustStoreIfNecessary_exists:
  assumes "(if isWin pf then env_USERPROFILE pf else env_HOME pf) = Some home"
    and "existsSync fs (path_join pf home ''.pkgsign-trust-store'')"
  shows "createTrustStoreIfNecessary pf fs = (Inr (path_join pf home ''.pkgsign-trust-store''), fs)"
  using assms by (auto simp: createTrustStoreIfNecessary_def Let_def)

lemma strict_eq_iff: "strict_eq v w \<longleftrightarrow> v = map_option JString w"
  by (induction v w rule: strict_eq.induct) (auto simp: map_option_case split: option.splits)

lemma isTrusted_Inr:
  assumes "createTrustStoreIfNecessary pf fs = (Inr folder, fs')"
  shows "isTrusted pf fs identity pkg =
    (Inr (\<exists>raw trustInfo.
            regular fs (path_join pf folder (pkg @ ''.trust'')) = Some raw
          \<and> JSON_parse pf raw = Some trustInfo
          \<and> trustInfo \<noteq> JNull
          \<and> property trustInfo ''keybaseUser'' = map_option JString (keybaseUser identity)
          \<and> property trustInfo ''pgpPublicKeyUrl'' = map_option JString (pgpPublicKeyUrl identity)),
     fs')"
  using assms createTrustStoreIfNecessary_Inr(3) [OF assms]
  by (auto simp add: isTrusted_def readFilePromise_def strict_eq_iff Let_def split: option.splits)

lemma isTrusted_Inl:
  "createTrustStoreIfNecessary pf fs = (Inl e, fs') \<Longrightarrow> isTrusted pf fs identity pkg = (Inl e, fs)"
  by (frule createTrustStoreIfNecessary_Inl) (simp add: isTrusted_def)

lemma property_identity_json:
  "property (identity_json i) ''keybaseUser'' = map_option JString (keybaseUser i)"
  "property (identity_json i) ''pgpPublicKeyUrl'' = map_option JString (pgpPublicKeyUrl i)"
  by (simp_all add: identity_json_def split: option.splits)

lemma map_option_JString_eq: "map_option JString a = map_option JString b \<longleftrightarrow> a = b"
  by (cases a; cases b) auto

lemma addTrusted_then_isTrusted:
  assumes rt: "JSON_parse pf (JSON_stringify pf (identity_json i)) = Some (identity_json i)"
    and add: "addTrusted pf fs i pkg = (Inr (), fs')"
  shows "isTrusted pf fs' i' pkg = (Inr (i' = i), fs')"
proof -
  from add obtain folder fs1 where
    c: "createTrustStoreIfNecessary pf fs = (Inr folder, fs1)" and
    w: "writeFilePromise pf fs1 (path_join pf folder (pkg @ ''.trust''))
          (JSON_stringify pf (identity_json i)) = Inr fs'"
    by (auto simp: addTrusted_def split: prod.splits sum.splits)
  let ?file = "path_join pf folder (pkg @ ''.trust'')"
  from w have fs': "fs' = fs1\<lparr>regular := (regular fs1)(?file \<mapsto> JSON_stringify pf (identity_json i))\<rparr>"
    by (auto simp: writeFilePromise_def split: if_splits)
  from createTrustStoreIfNecessary_Inr(1,2) [OF c] obtain home where
    home: "(if isWin pf then env_USERPROFILE pf else env_HOME pf) = Some home"
          "folder = path_join pf home ''.pkgsign-trust-store''"
    and ex: "existsSync fs1 folder"
    by auto
  from ex have "existsSync fs' folder"
    by (auto simp: fs' existsSync_def)
  with home have c': "createTrustStoreIfNecessary pf fs' = (Inr folder, fs')"
    using createTrustStoreIfNecessary_exists [of pf home fs'] by simp
  have reg: "regular fs' ?file = Some (JSON_stringify pf (identity_json i))"
    by (simp add: fs')
  have nn: "identity_json i \<noteq> JNull"
    by (simp add: identity_json_def)
  have eq: "i' = i \<longleftrightarrow> keybaseUser i' = keybaseUser i \<and> pgpPublicKeyUrl i' = pgpPublicKeyUrl i"
    by auto
  have "(\<exists>raw trustInfo.
            regular fs' ?file = Some raw
          \<and> JSON_parse pf raw = Some trustInfo
          \<and> trustInfo \<noteq> JNull
          \<and> property trustInfo ''keybaseUser'' = map_option JString (keybaseUser i')
          \<and> property trustInfo ''pgpPublicKeyUrl'' = map_option JString (pgpPublicKeyUrl i'))
        \<longleftrightarrow> i' = i"
    unfolding eq using nn
    by (auto simp: reg rt property_identity_json map_option_JString_eq)
  then show ?thesis
    by (simp only: isTrusted_Inr [OF c'])
qed

section \<open>Claims about the trust store\<close>

text \<open>
  C6, as amended. When the trust-store folder \<open><home>/.pkgsign-trust-store\<close> exists or
  can be created, \<open>isTrusted\<close> returns true if and only if the record file
  \<open><folder>/<packageName>.trust\<close> exists, parses as JSON to a value other than null, and
  the \<open>keybaseUser\<close> and \<open>pgpPublicKeyUrl\<close> properties of the parsed value are each
  strictly equal to the field of the identity, an absent one matching only an absent
  one; an IO or parse error on the record file gives false, not an exception. An error
  in resolving or creating the folder, which happens before the guarded read, is thrown.
\<close>

theorem isTrusted_record:
  "(createTrustStoreIfNecessary pf fs = (Inr folder, fs') \<longrightarrow>
      (\<exists>home. (if isWin pf then env_USERPROFILE pf else env_HOME pf) = Some home
             \<and> folder = path_join pf home ''.pkgsign-trust-store'')
    \<and> fst (isTrusted pf fs identity pkg) =
        Inr (\<exists>raw trustInfo.
               regular fs (path_join pf folder (pkg @ ''.trust'')) = Some raw
             \<and> JSON_parse pf raw = Some trustInfo
             \<and> trustInfo \<noteq> JNull
             \<and> property trustInfo ''keybaseUser'' = map_option JString (keybaseUser identity)
             \<and> property trustInfo ''pgpPublicKeyUrl'' = map_option JString (pgpPublicKeyUrl identity)))
   \<and> (createTrustStoreIfNecessary pf fs = (Inl e, fs') \<longrightarrow>
        fst (isTrusted pf fs identity pkg) = Inl e)"
proof (intro conjI impI)
  assume c: "createTrustStoreIfNecessary pf fs = (Inr folder, fs')"
  from createTrustStoreIfNecessary_Inr(1) [OF c]
  show "\<exists>home. (if isWin pf then env_USERPROFILE pf else env_HOME pf) = Some home
             \<and> folder = path_join pf home ''.pkgsign-trust-store''" .
  show "fst (isTrusted pf fs identity pkg) =
        Inr (\<exists>raw trustInfo.
               regular fs (path_join pf folder (pkg @ ''.trust'')) = Some raw
             \<and> JSON_parse pf raw = Some trustInfo
             \<and> trustInfo \<noteq> JNull
             \<and> property trustInfo ''keybaseUser'' = map_option JString (keybaseUser identity)
             \<and> property trustInfo ''pgpPublicKeyUrl'' = map_option JString (pgpPublicKeyUrl identity))"
    by (simp only: isTrusted_Inr [OF c] fst_conv)
next
  assume "createTrustStoreIfNecessary pf fs = (Inl e, fs')"
  then show "fst (isTrusted pf fs identity pkg) = Inl e"
    by (simp add: isTrusted_Inl)
qed

text \<open>
  The theorem on the example host: with the folder and a record for \<open>p\<close> naming alice in
  place, alice is trusted for \<open>p\<close> and bob is not; on the host without a home
  directory the folder cannot be created.
\<close>

theorem isTrusted_record_witness:
  \<open>createTrustStoreIfNecessary example_host
      \<lparr>regular = [''/home/u/.pkgsign-trust-store/p.trust'' \<mapsto> ''{"keybaseUser":"alice"}''],
       folders = {''/home/u'', ''/home/u/.pkgsign-trust-store''}\<rparr>
     = (Inr ''/home/u/.pkgsign-trust-store'',
        \<lparr>regular = [''/home/u/.pkgsign-trust-store/p.trust'' \<mapsto> ''{"keybaseUser":"alice"}''],
         folders = {''/home/u'', ''/home/u/.pkgsign-trust-store''}\<rparr>)
   \<and> fst (isTrusted example_host
      \<lparr>regular = [''/home/u/.pkgsign-trust-store/p.trust'' \<mapsto> ''{"keybaseUser":"alice"}''],
       folders = {''/home/u'', ''/home/u/.pkgsign-trust-store''}\<rparr> example_alice ''p'') = Inr True
   \<and> fst (isTrusted example_host
      \<lparr>regular = [''/home/u/.pkgsign-trust-store/p.trust'' \<mapsto> ''{"keybaseUser":"alice"}''],
       folders = {''/home/u'', ''/home/u/.pkgsign-trust-store''}\<rparr> example_bob ''p'') = Inr False
   \<and> createTrustStoreIfNecessary example_host example_bare_fs
     = (Inl (IOError ''/home/u/.pkgsign-trust-store''), example_bare_fs)
   \<and> fst (isTrusted example_host example_bare_fs example_alice ''p'')
     = Inl (IOError ''/home/u/.pkgsign-trust-store'')\<close>
proof -
  let ?fs = \<open>\<lparr>regular = [''/home/u/.pkgsign-trust-store/p.trust'' \<mapsto> ''{"keybaseUser":"alice"}''],
       folders = {''/home/u'', ''/home/u/.pkgsign-trust-store''}\<rparr>\<close>
  note ev = createTrustStoreIfNecessary_def existsSync_def mkdirSync_def example_host_def
    example_join_def example_dirname_def example_bare_fs_def Let_def
  note ej = example_host_def example_join_def example_parse_def example_documents_def
    example_alice_def example_bob_def
  have c1: "createTrustStoreIfNecessary example_host ?fs = (Inr ''/home/u/.pkgsign-trust-store'', ?fs)"
    by (simp add: ev)
  have c2: "createTrustStoreIfNecessary example_host example_bare_fs
     = (Inl (IOError ''/home/u/.pkgsign-trust-store''), example_bare_fs)"
    by (simp add: ev)
  from isTrusted_record [of example_host ?fs "''/home/u/.pkgsign-trust-store''" ?fs example_alice "''p''"] c1
  have r1: "fst (isTrusted example_host ?fs example_alice ''p'') = Inr True"
    by (simp add: ej)
  from isTrusted_record [of example_host ?fs "''/home/u/.pkgsign-trust-store''" ?fs example_bob "''p''"] c1
  have r2: "fst (isTrusted example_host ?fs example_bob ''p'') = Inr False"
    by (simp add: ej)
  from isTrusted_record [of example_host example_bare_fs _ _ example_alice "''p''"
         "IOError ''/home/u/.pkgsign-trust-store''"] c2
  have r3: "fst (isTrusted example_host example_bare_fs example_alice ''p'')
     = Inl (IOError ''/home/u/.pkgsign-trust-store'')"
    by blast
  from c1 r1 r2 c2 r3 show ?thesis by blast
qed

text \<open>
  For every IO error the statement fails: the folder is resolved and created before the
  \<open>try\<close>. On a host
  whose home directory does not exist the directory cannot be made, and this IO error
  is thrown by \<open>isTrusted\<close>, which does not return false.
\<close>

theorem isTrusted_record_counterexample:
  "isTrusted example_host example_bare_fs example_alice ''p''
     = (Inl (IOError ''/home/u/.pkgsign-trust-store''), example_bare_fs)
   \<and> fst (isTrusted example_host example_bare_fs example_alice ''p'') \<noteq> Inr False"
  by (simp add: isTrusted_def createTrustStoreIfNecessary_def existsSync_def mkdirSync_def
        example_host_def example_join_def example_dirname_def example_bare_fs_def Let_def)

text \<open>
  C7. Provided \<open>JSON.parse\<close> gives back what \<open>JSON.stringify\<close> printed of the identity:
  once \<open>addTrusted\<close> for an identity and a package name has completed, \<open>isTrusted\<close>
  returns true for that identity and name, and false for every identity that differs
  from it in a field; of two \<open>addTrusted\<close> for the same name the later one replaces the
  record, so that exactly the later identity is trusted.
\<close>

theorem addTrusted_isTrusted:
  "(JSON_parse pf (JSON_stringify pf (identity_json i)) = Some (identity_json i)
      \<and> addTrusted pf fs i pkg = (Inr (), fs')
    \<longrightarrow> fst (isTrusted pf fs' i pkg) = Inr True
      \<and> (\<forall>i'. keybaseUser i' \<noteq> keybaseUser i \<or> pgpPublicKeyUrl i' \<noteq> pgpPublicKeyUrl i
             \<longrightarrow> fst (isTrusted pf fs' i' pkg) = Inr False))
   \<and> (JSON_parse pf (JSON_stringify pf (identity_json i2)) = Some (identity_json i2)
      \<and> addTrusted pf fs i1 pkg = (Inr (), fs1)
      \<and> addTrusted pf fs1 i2 pkg = (Inr (), fs2)
    \<longrightarrow> (\<forall>i'. fst (isTrusted pf fs2 i' pkg) = Inr (i' = i2)))"
proof (intro conjI impI allI)
  assume a: "JSON_parse pf (JSON_stringify pf (identity_json i)) = Some (identity_json i)
      \<and> addTrusted pf fs i pkg = (Inr (), fs')"
  then show "fst (isTrusted pf fs' i pkg) = Inr True"
    by (simp add: addTrusted_then_isTrusted [of pf i fs pkg fs'])
  fix i' :: SignatureIdentity
  assume "keybaseUser i' \<noteq> keybaseUser i \<or> pgpPublicKeyUrl i' \<noteq> pgpPublicKeyUrl i"
  then have "i' \<noteq> i" by auto
  with a show "fst (isTrusted pf fs' i' pkg) = Inr False"
    by (simp add: addTrusted_then_isTrusted [of pf i fs pkg fs'])
next
  fix i' :: SignatureIdentity
  assume "JSON_parse pf (JSON_stringify pf (identity_json i2)) = Some (identity_json i2)
      \<and> addTrusted pf fs i1 pkg = (Inr (), fs1)
      \<and> addTrusted pf fs1 i2 pkg = (Inr (), fs2)"
  then show "fst (isTrusted pf fs2 i' pkg) = Inr (i' = i2)"
    by (simp add: addTrusted_then_isTrusted [of pf i2 fs1 pkg fs2])
qed

text \<open>
  The theorem on the example host: alice is approved for \<open>p\<close> (scenario 2 of the
  specification), then bob.
\<close>

theorem addTrusted_isTrusted_witness:
  "JSON_parse example_host (JSON_stringify example_host (identity_json example_alice))
     = Some (identity_json example_alice)
   \<and> JSON_parse example_host (JSON_stringify example_host (identity_json example_bob))
     = Some (identity_json example_bob)
   \<and> fst (addTrusted example_host example_fs example_alice ''p'') = Inr ()
   \<and> fst (addTrusted example_host (snd (addTrusted example_host example_fs example_alice ''p''))
            example_bob ''p'') = Inr ()
   \<and> fst (isTrusted example_host (snd (addTrusted example_host example_fs example_alice ''p''))
            example_alice ''p'') = Inr True
   \<and> fst (isTrusted example_host (snd (addTrusted example_host example_fs example_alice ''p''))
            example_bob ''p'') = Inr False
   \<and> fst (isTrusted example_host
            (snd (addTrusted example_host (snd (addTrusted example_host example_fs example_alice ''p''))
                    example_bob ''p''))
            example_alice ''p'') = Inr False
   \<and> fst (isTrusted example_host
            (snd (addTrusted example_host (snd (addTrusted example_host example_fs example_alice ''p''))
                    example_bob ''p''))
            example_bob ''p'') = Inr True"
proof -
  let ?fs1 = "snd (addTrusted example_host example_fs example_alice ''p'')"
  let ?fs2 = "snd (addTrusted example_host ?fs1 example_bob ''p'')"
  note ev = addTrusted_def createTrustStoreIfNecessary_def existsSync_def mkdirSync_def
    writeFilePromise_def example_host_def example_join_def example_dirname_def example_fs_def Let_def
  have rt1: "JSON_parse example_host (JSON_stringify example_host (identity_json example_alice))
     = Some (identity_json example_alice)"
    by (simp add: example_host_def example_parse_def example_stringify_def example_documents_def
          identity_json_def example_alice_def)
  have rt2: "JSON_parse example_host (JSON_stringify example_host (identity_json example_bob))
     = Some (identity_json example_bob)"
    by (simp add: example_host_def example_parse_def example_stringify_def example_documents_def
          identity_json_def example_bob_def)
  have f1: "fst (addTrusted example_host example_fs example_alice ''p'') = Inr ()"
    by (simp add: ev)
  have fs1: "?fs1 =
     \<lparr>regular = (regular example_fs)(''/home/u/.pkgsign-trust-store/p.trust'' \<mapsto>
                   JSON_stringify example_host (identity_json example_alice)),
      folders = insert ''/home/u/.pkgsign-trust-store'' (folders example_fs)\<rparr>"
    by (simp add: ev)
  have f2: "fst (addTrusted example_host ?fs1 example_bob ''p'') = Inr ()"
    unfolding fs1 by (simp add: ev)
  have a1: "addTrusted example_host example_fs example_alice ''p'' = (Inr (), ?fs1)"
    using f1 by (simp add: prod_eq_iff)
  have a2: "addTrusted example_host ?fs1 example_bob ''p'' = (Inr (), ?fs2)"
    using f2 by (simp add: prod_eq_iff)
  have ne: "keybaseUser example_bob \<noteq> keybaseUser example_alice"
    by (simp add: example_alice_def example_bob_def)
  then have ne': "example_alice \<noteq> example_bob"
    by auto
  from addTrusted_isTrusted [of example_host example_alice example_fs "''p''" ?fs1] rt1 a1 ne
  have r1: "fst (isTrusted example_host ?fs1 example_alice ''p'') = Inr True"
    and r2: "fst (isTrusted example_host ?fs1 example_bob ''p'') = Inr False"
    by blast+
  from addTrusted_isTrusted [where pf = example_host and pkg = "''p''" and ?i2.0 = example_bob
         and fs = example_fs and ?i1.0 = example_alice and ?fs1.0 = ?fs1 and ?fs2.0 = ?fs2]
       rt2 a1 a2
  have r3: "\<forall>i'. fst (isTrusted example_host ?fs2 i' ''p'') = Inr (i' = example_bob)"
    by blast
  from r3 ne' have r4: "fst (isTrusted example_host ?fs2 example_alice ''p'') = Inr False"
    and r5: "fst (isTrusted example_host ?fs2 example_bob ''p'') = Inr True"
    by simp_all
  from rt1 rt2 f1 f2 r1 r2 r4 r5 show ?thesis by blast
qed

text \<open>
  C8, as amended. The trust-store folder is created by whichever operation runs first,
  \<open>isTrusted\<close> as well as \<open>addTrusted\<close>: \<open>isTrusted\<close>, called when the folder does not
  exist and its parent does, creates it. \<open>isTrusted\<close> creates and changes no file, and
  when the folder exists, or cannot be created, it leaves the file system unchanged.
\<close>

theorem isTrusted_filesystem:
  "regular (snd (isTrusted pf fs identity pkg)) = regular fs
   \<and> ((if isWin pf then env_USERPROFILE pf else env_HOME pf) = Some home
        \<and> existsSync fs (path_join pf home ''.pkgsign-trust-store'')
      \<longrightarrow> snd (isTrusted pf fs identity pkg) = fs)
   \<and> ((if isWin pf then env_USERPROFILE pf else env_HOME pf) = Some home
        \<and> \<not> existsSync fs (path_join pf home ''.pkgsign-trust-store'')
        \<and> path_dirname pf (path_join pf home ''.pkgsign-trust-store'') \<in> folders fs
      \<longrightarrow> snd (isTrusted pf fs identity pkg)
            = fs\<lparr>folders := insert (path_join pf home ''.pkgsign-trust-store'') (folders fs)\<rparr>
        \<and> snd (createTrustStoreIfNecessary pf fs) = snd (isTrusted pf fs identity pkg)
        \<and> folders (snd (addTrusted pf fs identity pkg))
            = insert (path_join pf home ''.pkgsign-trust-store'') (folders fs))
   \<and> (fst (isTrusted pf fs identity pkg) = Inl e \<longrightarrow> snd (isTrusted pf fs identity pkg) = fs)"
proof -
  obtain res fs' where c: "createTrustStoreIfNecessary pf fs = (res, fs')"
    by (cases "createTrustStoreIfNecessary pf fs")
  have s: "snd (isTrusted pf fs identity pkg) = fs'"
  proof (cases res)
    case (Inl x)
    with c show ?thesis
      using isTrusted_Inl [of pf fs x fs'] createTrustStoreIfNecessary_Inl [of pf fs x fs'] by simp
  next
    case (Inr folder)
    with c show ?thesis
      using isTrusted_Inr [of pf fs folder fs'] by simp
  qed
  have t1: "regular fs' = regular fs"
    using c createTrustStoreIfNecessary_Inr(3) [of pf fs _ fs'] createTrustStoreIfNecessary_Inl [of pf fs _ fs']
    by (cases res) auto
  have t2: "fs' = fs"
    if "(if isWin pf then env_USERPROFILE pf else env_HOME pf) = Some home"
      and "existsSync fs (path_join pf home ''.pkgsign-trust-store'')"
    using createTrustStoreIfNecessary_exists [OF that] c by simp
  have t3: "fs' = fs\<lparr>folders := insert (path_join pf home ''.pkgsign-trust-store'') (folders fs)\<rparr>
        \<and> folders (snd (addTrusted pf fs identity pkg))
            = insert (path_join pf home ''.pkgsign-trust-store'') (folders fs)"
    if "(if isWin pf then env_USERPROFILE pf else env_HOME pf) = Some home"
      and "\<not> existsSync fs (path_join pf home ''.pkgsign-trust-store'')"
      and "path_dirname pf (path_join pf home ''.pkgsign-trust-store'') \<in> folders fs"
    using that c
    by (auto simp: createTrustStoreIfNecessary_def mkdirSync_def addTrusted_def writeFilePromise_def
          Let_def split: if_splits)
  have t4: "fs' = fs" if "fst (isTrusted pf fs identity pkg) = Inl e"
  proof (cases res)
    case (Inl x)
    with c show ?thesis using createTrustStoreIfNecessary_Inl [of pf fs x fs'] by simp
  next
    case (Inr folder)
    with c that show ?thesis using isTrusted_Inr [of pf fs folder fs'] by simp
  qed
  from t1 t2 t3 t4 show ?thesis
    unfolding s by (simp add: c)
qed

text \<open>
  The theorem on the example host: on the file system of the example, which has the home
  directory and no folder, \<open>isTrusted\<close> adds the folder; run again, it changes nothing;
  without a home directory it throws and changes nothing.
\<close>

theorem isTrusted_filesystem_witness:
  "\<not> existsSync example_fs (path_join example_host ''/home/u'' ''.pkgsign-trust-store'')
   \<and> path_dirname example_host (path_join example_host ''/home/u'' ''.pkgsign-trust-store'')
       \<in> folders example_fs
   \<and> snd (isTrusted example_host example_fs example_alice ''p'')
       = example_fs\<lparr>folders := insert ''/home/u/.pkgsign-trust-store'' (folders example_fs)\<rparr>
   \<and> existsSync (example_fs\<lparr>folders := insert ''/home/u/.pkgsign-trust-store'' (folders example_fs)\<rparr>)
        (path_join example_host ''/home/u'' ''.pkgsign-trust-store'')
   \<and> snd (isTrusted example_host
        (example_fs\<lparr>folders := insert ''/home/u/.pkgsign-trust-store'' (folders example_fs)\<rparr>)
        example_alice ''p'')
       = example_fs\<lparr>folders := insert ''/home/u/.pkgsign-trust-store'' (folders example_fs)\<rparr>
   \<and> fst (isTrusted example_host example_bare_fs example_alice ''p'')
       = Inl (IOError ''/home/u/.pkgsign-trust-store'')
   \<and> snd (isTrusted example_host example_bare_fs example_alice ''p'') = example_bare_fs"
proof -
  let ?fs1 = "example_fs\<lparr>folders := insert ''/home/u/.pkgsign-trust-store'' (folders example_fs)\<rparr>"
  note ev = existsSync_def example_host_def example_join_def example_dirname_def example_fs_def
  have home: "(if isWin example_host then env_USERPROFILE example_host else env_HOME example_host)
      = Some ''/home/u''"
    by (simp add: example_host_def)
  have j: "path_join example_host ''/home/u'' ''.pkgsign-trust-store'' = ''/home/u/.pkgsign-trust-store''"
    by (simp add: example_host_def example_join_def)
  have h1: "\<not> existsSync example_fs (path_join example_host ''/home/u'' ''.pkgsign-trust-store'')"
    by (simp add: ev)
  have h2: "path_dirname example_host (path_join example_host ''/home/u'' ''.pkgsign-trust-store'')
       \<in> folders example_fs"
    by (simp add: ev)
  have h3: "existsSync ?fs1 (path_join example_host ''/home/u'' ''.pkgsign-trust-store'')"
    by (simp add: ev)
  have h4: "fst (isTrusted example_host example_bare_fs example_alice ''p'')
       = Inl (IOError ''/home/u/.pkgsign-trust-store'')"
    by (simp add: isTrusted_def createTrustStoreIfNecessary_def existsSync_def mkdirSync_def
        example_host_def example_join_def example_dirname_def example_bare_fs_def Let_def)
  from isTrusted_filesystem [of example_host example_fs example_alice "''p''" "''/home/u''"] home h1 h2
  have r1: "snd (isTrusted example_host example_fs example_alice ''p'') = ?fs1"
    unfolding j by blast
  from isTrusted_filesystem [of example_host ?fs1 example_alice "''p''" "''/home/u''"] home h3
  have r2: "snd (isTrusted example_host ?fs1 example_alice ''p'') = ?fs1"
    by blast
  from isTrusted_filesystem [of example_host example_bare_fs example_alice "''p''" _
         "IOError ''/home/u/.pkgsign-trust-store''"] h4
  have r3: "snd (isTrusted example_host example_bare_fs example_alice ''p'') = example_bare_fs"
    by blast
  from h1 h2 r1 h3 r2 h4 r3 show ?thesis by blast
qed

text \<open>
  That \<open>isTrusted\<close> never changes the file system fails: on the file system of the
  example, where the folder does not exist, \<open>isTrusted\<close> creates it.
\<close>

theorem isTrusted_filesystem_counterexample:
  "''/home/u/.pkgsign-trust-store'' \<notin> folders example_fs
   \<and> ''/home/u/.pkgsign-trust-store'' \<in> folders (snd (isTrusted example_host example_fs example_alice ''p''))
   \<and> snd (isTrusted example_host example_fs example_alice ''p'') \<noteq> example_fs"
proof -
  have a: "''/home/u/.pkgsign-trust-store'' \<notin> folders example_fs"
    by (simp add: example_fs_def)
  have b: "snd (isTrusted example_host example_fs example_alice ''p'')
     = example_fs\<lparr>folders := insert ''/home/u/.pkgsign-trust-store'' (folders example_fs)\<rparr>"
    by (simp add: isTrusted_def createTrustStoreIfNecessary_def existsSync_def mkdirSync_def
        readFilePromise_def example_host_def example_join_def example_dirname_def example_fs_def Let_def)
  have c: "example_fs\<lparr>folders := insert ''/home/u/.pkgsign-trust-store'' (folders example_fs)\<rparr> \<noteq> example_fs"
  proof
    assume "example_fs\<lparr>folders := insert ''/home/u/.pkgsign-trust-store'' (folders example_fs)\<rparr> = example_fs"
    then have "folders (example_fs\<lparr>folders := insert ''/home/u/.pkgsign-trust-store'' (folders example_fs)\<rparr>)
       = folders example_fs"
      by simp
    with a show False by auto
  qed
  from a b c show ?thesis by simp
qed

section \<open>Lemmas about the module verifier\<close>

lemma verifyEntries_pass:
  "\<forall>e\<in>set es. entry_verify co e context fs = Inr None \<Longrightarrow> verifyEntries co fs context es = Inr None"
  by (induction es) simp_all





section \<open>Claims about the module verifier\<close>

text \<open>
  C4. When the signature document parses, every entry's content check passes, the first
  identity of the document is routed to a verifier and that verifier returns false on
  the canonical message, \<open>verify\<close> returns Compromised with the reason "The signature
  does not match", whatever the state of \<open>package.json\<close>: that file is read, and its
  name compared, only after the verifier has returned true.
\<close>

theorem verify_signature_mismatch:
  assumes "loadSignature pf co fs d = Inr sig"
    and "\<forall>e\<in>set (entries sig).
           entry_verify co e \<lparr>dir = d, relFilesOnDisk = rel, expectedPackageName = expected\<rparr> fs = Inr None"
    and "findIdentity co (entries sig) = Some identity"
    and "selectVerifier identity = Some verifier"
    and "verifier_verify co verifier identity (signature sig)
           (createDeterministicString co sig) = Inr False"
  shows "verify pf co fs d rel expected =
           (Inr \<lparr>status = Compromised, packageName = expected,
                 reason = Some ''The signature does not match'', untrustedIdentity = None,
                 untrustedPackageVersion = None, isPrivate = None\<rparr>, fs)"
  by (simp add: verify_def Let_def assms(1,3,4,5) verifyEntries_pass [OF assms(2)] verdict_def)

text \<open>
  The theorem on the example package with a forged signature, once with
  \<open>package.json\<close> missing and once with a \<open>package.json\<close> that does not parse.
\<close>

theorem verify_signature_mismatch_witness:
  "selectVerifier example_alice = Some KeybaseVerifier
   \<and> loadPackageInfo example_host
      \<lparr>regular = [''/p/signature.json'' \<mapsto> ''forged for alice''], folders = {''/p''}\<rparr> ''/p'' = None
   \<and> verify example_host example_collaborators
        \<lparr>regular = [''/p/signature.json'' \<mapsto> ''forged for alice''], folders = {''/p''}\<rparr>
        ''/p'' [''signature.json''] ''p''
     = (Inr \<lparr>status = Compromised, packageName = ''p'',
             reason = Some ''The signature does not match'', untrustedIdentity = None,
             untrustedPackageVersion = None, isPrivate = None\<rparr>,
        \<lparr>regular = [''/p/signature.json'' \<mapsto> ''forged for alice''], folders = {''/p''}\<rparr>)
   \<and> loadPackageInfo example_host
      \<lparr>regular = [''/p/signature.json'' \<mapsto> ''forged for alice'', ''/p/package.json'' \<mapsto> ''{''],
       folders = {''/p''}\<rparr> ''/p'' = None
   \<and> verify example_host example_collaborators
        \<lparr>regular = [''/p/signature.json'' \<mapsto> ''forged for alice'', ''/p/package.json'' \<mapsto> ''{''],
         folders = {''/p''}\<rparr>
        ''/p'' [''signature.json'', ''package.json''] ''p''
     = (Inr \<lparr>status = Compromised, packageName = ''p'',
             reason = Some ''The signature does not match'', untrustedIdentity = None,
             untrustedPackageVersion = None, isPrivate = None\<rparr>,
        \<lparr>regular = [''/p/signature.json'' \<mapsto> ''forged for alice'', ''/p/package.json'' \<mapsto> ''{''],
         folders = {''/p''}\<rparr>)"
proof -
  let ?fa = "\<lparr>regular = [''/p/signature.json'' \<mapsto> ''forged for alice''], folders = {''/p''}\<rparr>"
  let ?fb = "\<lparr>regular = [''/p/signature.json'' \<mapsto> ''forged for alice'', ''/p/package.json'' \<mapsto> ''{''],
         folders = {''/p''}\<rparr>"
  let ?sig = "\<lparr>entries = [None, Some example_alice], signature = ''bad''\<rparr>"
  note ev = loadSignature_def readFilePromise_def example_host_def example_join_def
    example_collaborators_def
  have pa: "loadPackageInfo example_host ?fa ''/p'' = None"
    and pb: "loadPackageInfo example_host ?fb ''/p'' = None"
    by (simp_all add: loadPackageInfo_def readFilePromise_def example_host_def example_join_def
          example_parse_def example_documents_def)
  have la: "loadSignature example_host example_collaborators ?fa ''/p'' = Inr ?sig"
    and lb: "loadSignature example_host example_collaborators ?fb ''/p'' = Inr ?sig"
    by (simp_all add: ev)
  have e: "\<forall>e\<in>set (entries ?sig). entry_verify example_collaborators e c f = Inr None" for c f
    by (simp add: example_collaborators_def)
  have i: "findIdentity example_collaborators (entries ?sig) = Some example_alice"
    by (simp add: example_collaborators_def)
  have k: "selectVerifier example_alice = Some KeybaseVerifier"
    by (simp add: selectVerifier_def example_alice_def)
  have v: "verifier_verify example_collaborators KeybaseVerifier example_alice
             (signature ?sig) (createDeterministicString example_collaborators ?sig) = Inr False"
    by (simp add: example_collaborators_def)
  from k pa pb
    verify_signature_mismatch [OF la e i k v, of "[''signature.json'']" "''p''"]
    verify_signature_mismatch [OF lb e i k v, of "[''signature.json'', ''package.json'']" "''p''"]
  show ?thesis by simp
qed






end
